theory Spec2Isabelle
  imports Main
begin

section \<open>Type identities, type names and exceptions\<close>

text \<open>
  The reader of \<^verbatim>\<open>Tools/NTupleReader.h\<close> keeps every column behind a type-erased
  \<^verbatim>\<open>Handle\<close> that records a \<^verbatim>\<open>std::type_index\<close>. The C++ types that
  can stand as a template argument are modelled by the datatype \<open>ctype\<close>;
  \<open>T_class\<close> names a class type (\<^verbatim>\<open>TLorentzVector\<close>, \<^verbatim>\<open>std::string\<close>) by its
  demangled name and \<open>T_nullptr\<close> is the type of \<^verbatim>\<open>nullptr\<close>, the tag of a
  default-constructed handle.
\<close>

datatype ctype =
    T_bool | T_char | T_int | T_uint | T_float | T_double
  | T_class string
  | T_vector ctype
  | T_map ctype ctype
  | T_pointer ctype
  | T_nullptr

text \<open>\<^verbatim>\<open>std::remove_pointer<T>::type\<close>: strips one pointer level, identity otherwise.\<close>

fun remove_pointer :: "ctype \<Rightarrow> ctype" where
  "remove_pointer (T_pointer t) = t"
| "remove_pointer t = t"

text \<open>
  \<^verbatim>\<open>demangle<T>()\<close> hands \<^verbatim>\<open>typeid(T).name()\<close> to the ABI's demangler. The strings
  below are the ones the Itanium demangler prints, with the default template arguments
  of the containers; it closes a template argument list with \<^verbatim>\<open>>\<close>, and with a space
  before it when the last argument itself ends in \<^verbatim>\<open>>\<close>. No theorem depends on the
  shape of these strings.
\<close>

fun close_template :: "string \<Rightarrow> string" where
  "close_template s = (if s \<noteq> [] \<and> last s = CHR ''>'' then s @ '' >'' else s @ ''>'')"

fun demangle :: "ctype \<Rightarrow> string" where
  "demangle T_bool = ''bool''"
| "demangle T_char = ''char''"
| "demangle T_int = ''int''"
| "demangle T_uint = ''unsigned int''"
| "demangle T_float = ''float''"
| "demangle T_double = ''double''"
| "demangle (T_class n) = n"
| "demangle (T_vector t) =
     close_template (''std::vector<'' @ demangle t @ '', ''
       @ close_template (''std::allocator<'' @ demangle t))"
| "demangle (T_map k v) =
     close_template (''std::map<'' @ demangle k @ '', '' @ demangle v @ '', ''
       @ close_template (''std::less<'' @ demangle k) @ '', ''
       @ close_template (''std::allocator<''
           @ close_template (''std::pair<'' @ demangle k @ '' const, '' @ demangle v)))"
| "demangle (T_pointer t) = demangle t @ ''*''"
| "demangle T_nullptr = ''decltype(nullptr)''"

text \<open>
  \<^verbatim>\<open>SATException\<close> carries the message handed to \<^verbatim>\<open>THROW_SATEXCEPTION\<close>. The
  header has one exception class; the four messages it throws are named below.
  \<open>msg_past_init\<close> is the failure of a late \<^verbatim>\<open>registerFunction\<close>, \<open>msg_redefine\<close>
  the failure of a derived registration under a known name, and the two
  \<open>msg_not_found\<close> messages end \<^verbatim>\<open>getTupleObj\<close>.
\<close>

datatype SATException = SATException string

definition msg_past_init :: string where
  "msg_past_init = ''New functions cannot be registered after tuple reading begins!'' @ [CHR 0x0A]"

definition msg_redefine :: "string \<Rightarrow> string" where
  \<open>msg_redefine name = ''You are trying to redefine a tuple var: "'' @ name
     @ ''".  This is not allowed!  Please choose a unique name.''\<close>

definition msg_not_found_typed :: "string \<Rightarrow> ctype \<Rightarrow> string \<Rightarrow> string" where
  \<open>msg_not_found_typed var T found = ''Variable not found: "'' @ var @ ''" with type "''
     @ demangle T @ ''", but is found with type "'' @ found @ ''"!!!''\<close>

definition msg_not_found :: "string \<Rightarrow> ctype \<Rightarrow> string" where
  \<open>msg_not_found var T = ''Variable not found: "'' @ var @ ''" with type "''
     @ demangle T @ ''"!!!''\<close>

text \<open>
  What a call can end in: a value, a thrown \<^verbatim>\<open>SATException\<close>, or behaviour the
  language leaves undefined (dereferencing \<^verbatim>\<open>end()\<close>, using a freed object).
\<close>

datatype 'a result = Return 'a | Throw SATException | Undefined

section \<open>The free store, handles and deleters\<close>

text \<open>
  Addresses are natural numbers and \<open>0\<close> is \<^verbatim>\<open>nullptr\<close>. An object on the free
  store is a value-initialised object (\<^verbatim>\<open>new T()\<close>), an object holding a value, a
  pointer cell (\<^verbatim>\<open>new T*()\<close> holds the null pointer), or one of the two deleter
  objects. \<open>brk\<close> is the next address \<^verbatim>\<open>new\<close> hands out.
\<close>

type_synonym addr = nat

datatype 'v obj = Default | Value 'v | Pointer addr | SimpleDeleter | VecDeleter

record 'v memory =
  cells :: "addr \<rightharpoonup> 'v obj"
  brk :: addr

definition new_object :: "'v obj \<Rightarrow> 'v memory \<Rightarrow> addr \<times> 'v memory" where
  "new_object x M = (brk M, M\<lparr>cells := (cells M)(brk M \<mapsto> x), brk := brk M + 1\<rparr>)"

text \<open>
  \<^verbatim>\<open>delete p\<close>: nothing for the null pointer, undefined on an address that holds no
  live object.
\<close>

definition delete_object :: "addr \<Rightarrow> 'v memory \<Rightarrow> 'v memory result" where
  "delete_object p M =
     (if p = 0 then Return M
      else (case cells M p of
              None \<Rightarrow> Undefined
            | Some _ \<Rightarrow> Return (M\<lparr>cells := (cells M)(p := None)\<rparr>)))"

record Handle =
  ptr :: addr
  deleter :: addr
  type :: ctype

text \<open>
  \<^verbatim>\<open>deleter<T>::destroy(ptr)\<close> deletes the object. \<^verbatim>\<open>vec_deleter<T>::destroy(ptr)\<close>
  reads \<^verbatim>\<open>T *vecptr = *static_cast<T**>(ptr)\<close>, deletes \<^verbatim>\<open>vecptr\<close> when it is not null,
  then deletes \<^verbatim>\<open>static_cast<T*>(ptr)\<close>. Every \<^verbatim>\<open>createVecHandle\<close> of the header that
  passes a pointer cell instantiates it with the pointer type, \<^verbatim>\<open>T = std::vector<X>*\<close>:
  a \<^verbatim>\<open>vecptr\<close> that is not null then has the static type \<^verbatim>\<open>std::vector<X>**\<close> and
  points to a \<^verbatim>\<open>std::vector<X>\<close>, so \<^verbatim>\<open>delete vecptr\<close> deletes an object through a
  pointer of another type and is undefined. A cell that holds no pointer (the scalar
  that \<^verbatim>\<open>updateTupleVar\<close> wraps) is read as one, which is undefined as well.
\<close>

definition deleter_destroy :: "'v obj \<Rightarrow> addr \<Rightarrow> 'v memory \<Rightarrow> 'v memory result" where
  "deleter_destroy d p M =
     (case d of
        SimpleDeleter \<Rightarrow> delete_object p M
      | VecDeleter \<Rightarrow>
          (case cells M p of
             Some (Pointer vecptr) \<Rightarrow>
               (if vecptr \<noteq> 0 then Undefined else delete_object p M)
           | _ \<Rightarrow> Undefined)
      | _ \<Rightarrow> Undefined)"

text \<open>
  \<^verbatim>\<open>Handle::destroy()\<close>: when the \<^verbatim>\<open>deleter\<close> field is not null, call the deleter on
  \<^verbatim>\<open>ptr\<close> and delete the deleter object. The function assigns to no field, so the
  handle it returns is the handle it was given. A non-null \<^verbatim>\<open>deleter\<close> field whose
  object is no longer live is a call through a dangling pointer.
\<close>

definition destroy :: "Handle \<Rightarrow> 'v memory \<Rightarrow> (Handle \<times> 'v memory) result" where
  "destroy h M =
     (if deleter h \<noteq> 0
      then (case cells M (deleter h) of
              None \<Rightarrow> Undefined
            | Some d \<Rightarrow>
                (case deleter_destroy d (ptr h) M of
                   Return M' \<Rightarrow>
                     (case delete_object (deleter h) M' of
                        Return M'' \<Rightarrow> Return (h, M'')
                      | Throw e \<Rightarrow> Throw e
                      | Undefined \<Rightarrow> Undefined)
                 | Throw e \<Rightarrow> Throw e
                 | Undefined \<Rightarrow> Undefined))
      else Return (h, M))"

text \<open>
  \<^verbatim>\<open>createHandle(ptr)\<close> and \<^verbatim>\<open>createVecHandle(ptr)\<close>, for a \<^verbatim>\<open>ptr\<close> of type
  \<^verbatim>\<open>T*\<close>: the deleter object is allocated inside, after the argument.
\<close>

definition createHandle :: "ctype \<Rightarrow> addr \<Rightarrow> 'v memory \<Rightarrow> Handle \<times> 'v memory" where
  "createHandle T p M =
     (case new_object SimpleDeleter M of
        (d, M') \<Rightarrow> (\<lparr>ptr = p, deleter = d, type = T\<rparr>, M'))"

definition createVecHandle :: "ctype \<Rightarrow> addr \<Rightarrow> 'v memory \<Rightarrow> Handle \<times> 'v memory" where
  "createVecHandle T p M =
     (case new_object VecDeleter M of
        (d, M') \<Rightarrow> (\<lparr>ptr = p, deleter = d, type = remove_pointer T\<rparr>, M'))"

section \<open>The pipeline wrapper\<close>

text \<open>
  \<^verbatim>\<open>FuncWrapperImpl<T>\<close> stores the callable \<^verbatim>\<open>func_\<close> (a member's trailing
  underscore is dropped throughout: such a name is not an identifier here). A callable on a session of
  type \<open>'s\<close> returning a value of type \<open>'r\<close> (\<open>unit\<close> for \<^verbatim>\<open>void\<close>, \<open>bool\<close> for a
  predicate) is a function \<open>'s \<Rightarrow> 'r \<times> 's\<close>. \<^verbatim>\<open>operator()\<close> calls it and returns
  \<^verbatim>\<open>true\<close>.
\<close>

datatype 'f FuncWrapper = FuncWrapperImpl 'f

fun call_operator :: "('s \<Rightarrow> 'r \<times> 's) FuncWrapper \<Rightarrow> 's \<Rightarrow> bool \<times> 's" where
  "call_operator (FuncWrapperImpl func) tr = (case func tr of (r, tr') \<Rightarrow> (True, tr'))"

section \<open>The external source\<close>

text \<open>
  The tree behind \<^verbatim>\<open>tree_\<close> is an external collaborator, seen through the calls the
  header makes on it. \<open>branches\<close> is its branch list with each branch's declared
  type, \<open>status\<close> and \<open>address\<close> are what \<^verbatim>\<open>SetBranchStatus\<close> and
  \<^verbatim>\<open>SetBranchAddress\<close> record, and \<open>deliver name n a\<close> is the source's own
  delivery of entry \<open>n\<close> of branch \<open>name\<close> into the address \<open>a\<close> bound to it.
  A \<^verbatim>\<open>TBranch*\<close> that is not null is the branch's name with its declared type.
\<close>

record 'v TTree =
  branches :: "string \<rightharpoonup> ctype"
  status :: "string \<Rightarrow> bool"
  address :: "string \<rightharpoonup> addr"
  deliver :: "string \<Rightarrow> int \<Rightarrow> addr \<Rightarrow> 'v memory \<Rightarrow> 'v memory"

type_synonym TBranch = "string \<times> ctype"

definition FindBranch :: "'v TTree \<Rightarrow> string \<Rightarrow> TBranch option" where
  "FindBranch t name = (case branches t name of None \<Rightarrow> None | Some d \<Rightarrow> Some (name, d))"

definition SetBranchStatus :: "string \<Rightarrow> bool \<Rightarrow> 'v TTree \<Rightarrow> 'v TTree" where
  "SetBranchStatus name b t = t\<lparr>status := (status t)(name := b)\<rparr>"

definition SetBranchAddress :: "string \<Rightarrow> addr \<Rightarrow> 'v TTree \<Rightarrow> 'v TTree" where
  "SetBranchAddress name p t =
     (if branches t name = None then t else t\<lparr>address := (address t)(name \<mapsto> p)\<rparr>)"

definition GetEvent :: "'v TTree \<Rightarrow> TBranch \<Rightarrow> int \<Rightarrow> 'v memory \<Rightarrow> 'v memory" where
  "GetEvent t branch n M =
     (case address t (fst branch) of
        None \<Rightarrow> M
      | Some a \<Rightarrow> deliver t (fst branch) n a M)"

section \<open>The reader\<close>

text \<open>
  The members of \<^verbatim>\<open>NTupleReader\<close>, with two fields added for what the members act
  on: \<open>heap\<close>, the free store the handles point into, and \<open>printed\<close>, the exceptions
  \<^verbatim>\<open>e.print()\<close> has written. \<open>'f\<close> is the type of the registered callables.
\<close>

record ('f, 'v) NTupleReader =
  tree :: "'v TTree"
  nevt :: int
  evtProcessed :: int
  isUpdateDisabled :: bool
  reThrow :: bool
  convertHackActive :: bool
  prefix :: string
  branchMap :: "string \<rightharpoonup> Handle"
  branchVecMap :: "string \<rightharpoonup> Handle"
  functionVec :: "'f FuncWrapper list"
  typeMap :: "string \<rightharpoonup> string"
  activeBranches :: "string set"
  heap :: "'v memory"
  printed :: "SATException list"

text \<open>
  \<^verbatim>\<open>nevt_\<close> and \<^verbatim>\<open>evtProcessed_\<close> are of type \<^verbatim>\<open>int\<close>, 32 bits wide. The header
  compares them and computes \<^verbatim>\<open>nevt_ - 1\<close>; a signed subtraction whose result leaves
  the range of \<^verbatim>\<open>int\<close> is undefined.
\<close>

definition INT_MIN :: int where
  "INT_MIN = - 2147483648"

definition INT_MAX :: int where
  "INT_MAX = 2147483647"

definition minus_int :: "int \<Rightarrow> int \<Rightarrow> int result" where
  "minus_int a b = (if INT_MIN \<le> a - b \<and> a - b \<le> INT_MAX then Return (a - b) else Undefined)"

definition isFirstEvent :: "('f, 'v) NTupleReader \<Rightarrow> bool" where
  "isFirstEvent s = (evtProcessed s \<le> 1)"

definition checkBranch :: "('f, 'v) NTupleReader \<Rightarrow> string \<Rightarrow> bool" where
  "checkBranch s name = (typeMap s name \<noteq> None)"

definition registerFunction ::
  "'f \<Rightarrow> ('f, 'v) NTupleReader \<Rightarrow> unit result \<times> ('f, 'v) NTupleReader" where
  "registerFunction f s =
     (if isFirstEvent s
      then (Return (), s\<lparr>functionVec := functionVec s @ [FuncWrapperImpl f]\<rparr>)
      else (Throw (SATException msg_past_init), s))"

text \<open>
  \<^verbatim>\<open>setDerived(retval, loc)\<close> assigns through \<^verbatim>\<open>loc\<close>; assigning through an address
  that holds no live object is undefined.
\<close>

definition setDerived :: "'v obj \<Rightarrow> addr \<Rightarrow> 'v memory \<Rightarrow> 'v memory result" where
  "setDerived retval loc M =
     (case cells M loc of
        None \<Rightarrow> Undefined
      | Some _ \<Rightarrow> Return (M\<lparr>cells := (cells M)(loc \<mapsto> retval)\<rparr>))"

text \<open>
  The handler of both derived registrations: \<^verbatim>\<open>e.print(); if(reThrow_) throw;\<close>.
  Without the rethrow the function returns normally.
\<close>

definition catch_register ::
  "unit result \<times> ('f, 'v) NTupleReader \<Rightarrow> unit result \<times> ('f, 'v) NTupleReader" where
  "catch_register rs =
     (case rs of
        (Throw e, s) \<Rightarrow>
          (let s' = s\<lparr>printed := printed s @ [e]\<rparr>
           in if reThrow s' then (Throw e, s') else (Return (), s'))
      | _ \<Rightarrow> rs)"

definition try_registerDerivedVar ::
  "ctype \<Rightarrow> string \<Rightarrow> 'v \<Rightarrow> ('f, 'v) NTupleReader \<Rightarrow> unit result \<times> ('f, 'v) NTupleReader" where
  "try_registerDerivedVar T name var s =
     (case (case branchMap s name of
              None \<Rightarrow>
                (case typeMap s name of
                   Some _ \<Rightarrow> Throw (SATException (msg_redefine name))
                 | None \<Rightarrow>
                     (case new_object Default (heap s) of
                        (p, M1) \<Rightarrow>
                          (case createHandle T p M1 of
                             (h, M2) \<Rightarrow>
                               Return (h, s\<lparr>branchMap := (branchMap s)(name \<mapsto> h),
                                            typeMap := (typeMap s)(name \<mapsto> demangle T),
                                            heap := M2\<rparr>))))
            | Some h \<Rightarrow> Return (h, s)) of
        Return (h, s1) \<Rightarrow>
          (case setDerived (Value var) (ptr h) (heap s1) of
             Return M \<Rightarrow> (Return (), s1\<lparr>heap := M\<rparr>)
           | Throw e \<Rightarrow> (Throw e, s1)
           | Undefined \<Rightarrow> (Undefined, s1))
      | Throw e \<Rightarrow> (Throw e, s)
      | Undefined \<Rightarrow> (Undefined, s))"

definition registerDerivedVar ::
  "ctype \<Rightarrow> string \<Rightarrow> 'v \<Rightarrow> ('f, 'v) NTupleReader \<Rightarrow> unit result \<times> ('f, 'v) NTupleReader" where
  "registerDerivedVar T name var s = catch_register (try_registerDerivedVar T name var s)"

text \<open>
  \<^verbatim>\<open>registerDerivedVec<T>(name, var)\<close>: \<open>var\<close> is the address of the collection handed
  over. The cell is read as a pointer; the collection it held is deleted when not null.
\<close>

definition try_registerDerivedVec ::
  "ctype \<Rightarrow> string \<Rightarrow> addr \<Rightarrow> ('f, 'v) NTupleReader \<Rightarrow> unit result \<times> ('f, 'v) NTupleReader" where
  "try_registerDerivedVec T name var s =
     (case (case branchVecMap s name of
              None \<Rightarrow>
                (case typeMap s name of
                   Some _ \<Rightarrow> Throw (SATException (msg_redefine name))
                 | None \<Rightarrow>
                     (case new_object (Pointer 0) (heap s) of
                        (p, M1) \<Rightarrow>
                          (case createVecHandle (T_pointer T) p M1 of
                             (h, M2) \<Rightarrow>
                               Return (h, s\<lparr>branchVecMap := (branchVecMap s)(name \<mapsto> h),
                                            typeMap := (typeMap s)(name \<mapsto> demangle T),
                                            heap := M2\<rparr>))))
            | Some h \<Rightarrow> Return (h, s)) of
        Return (h, s1) \<Rightarrow>
          (case cells (heap s1) (ptr h) of
             Some (Pointer vecptr) \<Rightarrow>
               (case (if vecptr \<noteq> 0 then delete_object vecptr (heap s1) else Return (heap s1)) of
                  Return M1 \<Rightarrow>
                    (case setDerived (Pointer var) (ptr h) M1 of
                       Return M2 \<Rightarrow> (Return (), s1\<lparr>heap := M2\<rparr>)
                     | Throw e \<Rightarrow> (Throw e, s1)
                     | Undefined \<Rightarrow> (Undefined, s1))
                | Throw e \<Rightarrow> (Throw e, s1)
                | Undefined \<Rightarrow> (Undefined, s1))
           | _ \<Rightarrow> (Undefined, s1))
      | Throw e \<Rightarrow> (Throw e, s)
      | Undefined \<Rightarrow> (Undefined, s))"

definition registerDerivedVec ::
  "ctype \<Rightarrow> string \<Rightarrow> addr \<Rightarrow> ('f, 'v) NTupleReader \<Rightarrow> unit result \<times> ('f, 'v) NTupleReader" where
  "registerDerivedVec T name var s = catch_register (try_registerDerivedVec T name var s)"

text \<open>
  The templates \<^verbatim>\<open>registerBranch<T>(name)\<close> and \<^verbatim>\<open>registerVecBranch<T>(name)\<close>:
  \<^verbatim>\<open>operator[]\<close> assigns the new handle whether or not the key was there.
\<close>

definition registerBranch :: "ctype \<Rightarrow> string \<Rightarrow> ('f, 'v) NTupleReader \<Rightarrow> ('f, 'v) NTupleReader" where
  "registerBranch T name s =
     (case new_object Default (heap s) of
        (p, M1) \<Rightarrow>
          (case createHandle T p M1 of
             (h, M2) \<Rightarrow>
               s\<lparr>branchMap := (branchMap s)(name \<mapsto> h),
                 typeMap := (typeMap s)(name \<mapsto> demangle T),
                 heap := M2,
                 tree := SetBranchAddress name (ptr h) (SetBranchStatus name True (tree s))\<rparr>))"

definition registerVecBranch :: "ctype \<Rightarrow> string \<Rightarrow> ('f, 'v) NTupleReader \<Rightarrow> ('f, 'v) NTupleReader" where
  "registerVecBranch T name s =
     (case new_object (Pointer 0) (heap s) of
        (p, M1) \<Rightarrow>
          (case createVecHandle (T_pointer (T_vector T)) p M1 of
             (h, M2) \<Rightarrow>
               s\<lparr>branchVecMap := (branchVecMap s)(name \<mapsto> h),
                 typeMap := (typeMap s)(name \<mapsto> demangle (T_vector T)),
                 heap := M2,
                 tree := SetBranchAddress name (ptr h) (SetBranchStatus name True (tree s))\<rparr>))"

text \<open>
  Modelled from the spec: the overload \<^verbatim>\<open>registerBranch(TBranch*)\<close> is declared in the
  header and defined outside it. Section 4.3: on a miss the registry takes from the
  external source "the column's declared storage category (scalar vs. vector) and
  concrete element type", allocates a column for that type, marks it active and binds
  its address. The two templates above do the allocation, the marking and the
  binding; this overload chooses between them by the declared type.
\<close>

definition registerBranch_TBranch :: "TBranch \<Rightarrow> ('f, 'v) NTupleReader \<Rightarrow> ('f, 'v) NTupleReader" where
  "registerBranch_TBranch branch s =
     (case snd branch of
        T_vector t \<Rightarrow> registerVecBranch t (fst branch) s
      | t \<Rightarrow> registerBranch t (fst branch) s)"

text \<open>
  The storage category of a declared type, as the overload above reads it: a vector
  type goes to the vector-column map, every other type to the scalar-column map.
\<close>

fun is_vector :: "ctype \<Rightarrow> bool" where
  "is_vector (T_vector t) = True"
| "is_vector t = False"

text \<open>
  Modelled from the spec: \<^verbatim>\<open>getType(name, type)\<close> is declared in the header and
  defined outside it. Section 4.2: "getType(name) -> type-name string, fails with
  NotFound if absent". The spec gives no message for that failure.
\<close>

definition getType :: "('f, 'v) NTupleReader \<Rightarrow> string \<Rightarrow> string result" where
  \<open>getType s name =
     (case typeMap s name of
        Some t \<Rightarrow> Return t
      | None \<Rightarrow> Throw (SATException (''Variable not found: "'' @ name @ ''"'')))\<close>

section \<open>The typed accessors\<close>

text \<open>
  The first lines of \<^verbatim>\<open>getTupleObj\<close>: the prefixed name when the type map knows
  it, the bare name otherwise.
\<close>

definition resolveName :: "('f, 'v) NTupleReader \<Rightarrow> string \<Rightarrow> string" where
  "resolveName s var = (if checkBranch s (prefix s @ var) then prefix s @ var else var)"

text \<open>
  \<^verbatim>\<open>char typen;\<close> is declared without an initialiser and assigned by four
  independent \<^verbatim>\<open>if\<close> statements. \<open>typen0\<close> is the indeterminate value it holds when
  none of them fires; \<open>R\<close> is the requested type with its pointer removed and
  \<open>stored\<close> the tag of the handle found.
\<close>

definition select_typen :: "ctype \<Rightarrow> ctype \<Rightarrow> char \<Rightarrow> char" where
  "select_typen R stored typen0 =
     (let typen = typen0;
          typen = (if R = T_vector T_float \<and> stored = T_vector T_double then CHR ''f'' else typen);
          typen = (if R = T_vector T_double \<and> stored = T_vector T_float then CHR ''d'' else typen);
          typen = (if R = T_vector T_int \<and> stored = T_vector T_uint then CHR ''i'' else typen);
          typen = (if R = T_vector T_int \<and> stored = T_vector T_float then CHR ''a'' else typen)
      in typen)"

text \<open>
  The exception of the two \<^verbatim>\<open>THROW_SATEXCEPTION\<close> that end \<^verbatim>\<open>getTupleObj\<close>; the
  type map is asked for \<^verbatim>\<open>var\<close>, the name as the caller gave it.
\<close>

definition not_found :: "ctype \<Rightarrow> string \<Rightarrow> ('f, 'v) NTupleReader \<Rightarrow> SATException" where
  "not_found T var s =
     (case typeMap s var of
        Some found \<Rightarrow> SATException (msg_not_found_typed var (remove_pointer T) found)
      | None \<Rightarrow> SATException (msg_not_found var (remove_pointer T)))"

text \<open>
  \<^verbatim>\<open>getTupleObj<T>(var, v_tuple, forceLoad)\<close>. \<^verbatim>\<open>v_tuple\<close> is a reference to one of
  the two column maps of the same object, so it is passed as the field it refers to
  and read in the current state: after the attachment of the third branch it shows
  what the attachment inserted. The reference returned is the address \<^verbatim>\<open>ptr\<close> of the
  handle chosen. In the third branch \<^verbatim>\<open>nevt_ - 1\<close> is computed before the iterator is
  dereferenced; both the overflow and the dereference of \<^verbatim>\<open>end()\<close> are undefined.
\<close>

definition getTupleObj ::
  "ctype \<Rightarrow> string \<Rightarrow> (('f, 'v) NTupleReader \<Rightarrow> string \<rightharpoonup> Handle) \<Rightarrow> bool \<Rightarrow> char
     \<Rightarrow> ('f, 'v) NTupleReader \<Rightarrow> addr result \<times> ('f, 'v) NTupleReader" where
  "getTupleObj T var v_tuple forceLoad typen0 s =
     (let varName = resolveName s var in
      case v_tuple s varName of
        Some h \<Rightarrow>
          (if type h = remove_pointer T \<or> forceLoad then (Return (ptr h), s)
           else if convertHackActive s then
             (let typen = select_typen (remove_pointer T) (type h) typen0;
                  newname = varName @ ''___'' @ [typen]
              in case branchVecMap s newname of
                   Some h1 \<Rightarrow> (Return (ptr h1), s)
                 | None \<Rightarrow>
                     (case getType s varName of
                        Throw e \<Rightarrow> (Throw e, s)
                      | Undefined \<Rightarrow> (Undefined, s)
                      | Return varType \<Rightarrow>
                          (case branchMap s (varName @ ''___d'') of
                             Some h2 \<Rightarrow> (Return (ptr h2), s)
                           | None \<Rightarrow>
                               (case branchMap s (varName @ ''___f'') of
                                  Some h3 \<Rightarrow> (Return (ptr h3), s)
                                | None \<Rightarrow>
                                    (case branchMap s (varName @ ''___i'') of
                                       Some h4 \<Rightarrow> (Return (ptr h4), s)
                                     | None \<Rightarrow> (Throw (not_found T var s), s))))))
           else (Throw (not_found T var s), s))
      | None \<Rightarrow>
          (if typeMap s varName \<noteq> None then
             (case FindBranch (tree s) varName of
                None \<Rightarrow> (Throw (not_found T var s), s)
              | Some branch \<Rightarrow>
                  (let s1 = registerBranch_TBranch branch s;
                       tuple_iter = v_tuple s1 varName
                   in case minus_int (nevt s1) 1 of
                        Return entry \<Rightarrow>
                          (let s2 = s1\<lparr>heap := GetEvent (tree s1) branch entry (heap s1)\<rparr>
                           in case tuple_iter of
                                None \<Rightarrow> (Undefined, s2)
                              | Some h \<Rightarrow>
                                  (if type h = remove_pointer T then (Return (ptr h), s2)
                                   else (Throw (not_found T var s2), s2)))
                      | _ \<Rightarrow> (Undefined, s1)))
           else (Throw (not_found T var s), s)))"

text \<open>
  The handler of the three accessors: \<^verbatim>\<open>if(isFirstEvent()) e.print();
  if(reThrow_) throw; return *static_cast<T*>(nullptr);\<close>. The reference made from
  the null pointer is the address \<open>0\<close>.
\<close>

definition catch_accessor ::
  "addr result \<times> ('f, 'v) NTupleReader \<Rightarrow> addr result \<times> ('f, 'v) NTupleReader" where
  "catch_accessor rs =
     (case rs of
        (Throw e, s) \<Rightarrow>
          (let s' = (if isFirstEvent s then s\<lparr>printed := printed s @ [e]\<rparr> else s)
           in if reThrow s' then (Throw e, s') else (Return 0, s'))
      | _ \<Rightarrow> rs)"

definition getVar ::
  "ctype \<Rightarrow> string \<Rightarrow> bool \<Rightarrow> char \<Rightarrow> ('f, 'v) NTupleReader
     \<Rightarrow> addr result \<times> ('f, 'v) NTupleReader" where
  "getVar T var forceLoad typen0 s = catch_accessor (getTupleObj T var branchMap forceLoad typen0 s)"

text \<open>
  \<^verbatim>\<open>getVec\<close> and \<^verbatim>\<open>getMap\<close> dereference what \<^verbatim>\<open>getTupleObj\<close> returns: the cell is
  read as a pointer and the reference returned is to the collection it points to.
  Reading a cell that holds no pointer is undefined.
\<close>

definition deref_cell ::
  "addr result \<times> ('f, 'v) NTupleReader \<Rightarrow> addr result \<times> ('f, 'v) NTupleReader" where
  "deref_cell rs =
     (case rs of
        (Return a, s) \<Rightarrow>
          (case cells (heap s) a of
             Some (Pointer q) \<Rightarrow> (Return q, s)
           | _ \<Rightarrow> (Undefined, s))
      | _ \<Rightarrow> rs)"

definition getVec ::
  "ctype \<Rightarrow> string \<Rightarrow> bool \<Rightarrow> char \<Rightarrow> ('f, 'v) NTupleReader
     \<Rightarrow> addr result \<times> ('f, 'v) NTupleReader" where
  "getVec T var forceLoad typen0 s =
     catch_accessor
       (deref_cell (getTupleObj (T_pointer (T_vector T)) var branchVecMap forceLoad typen0 s))"

definition getMap ::
  "ctype \<Rightarrow> ctype \<Rightarrow> string \<Rightarrow> char \<Rightarrow> ('f, 'v) NTupleReader
     \<Rightarrow> addr result \<times> ('f, 'v) NTupleReader" where
  "getMap T V var typen0 s =
     catch_accessor
       (deref_cell (getTupleObj (T_pointer (T_map T V)) var branchVecMap False typen0 s))"

text \<open>
  \<^verbatim>\<open>updateTupleVar<T>(name, var)\<close>, the private writer of the friend function: on the
  first event a missing column is created (through \<^verbatim>\<open>createVecHandle\<close>), then the
  value is assigned or the name reported missing.
\<close>

definition updateTupleVar ::
  "ctype \<Rightarrow> string \<Rightarrow> 'v \<Rightarrow> ('f, 'v) NTupleReader \<Rightarrow> unit result \<times> ('f, 'v) NTupleReader" where
  \<open>updateTupleVar T name var s =
     (let s1 =
        (if isFirstEvent s \<and> branchMap s name = None
         then (case new_object Default (heap s) of
                 (p, M1) \<Rightarrow>
                   (case createVecHandle T p M1 of
                      (h, M2) \<Rightarrow>
                        s\<lparr>branchMap := (branchMap s)(name \<mapsto> h),
                          typeMap := (typeMap s)(name \<mapsto> demangle T),
                          heap := M2\<rparr>))
         else s)
      in case branchMap s1 name of
           Some h \<Rightarrow>
             (case setDerived (Value var) (ptr h) (heap s1) of
                Return M \<Rightarrow> (Return (), s1\<lparr>heap := M\<rparr>)
              | Throw e \<Rightarrow> (Throw e, s1)
              | Undefined \<Rightarrow> (Undefined, s1))
         | None \<Rightarrow>
             (Throw (SATException (''Variable not found: "'' @ name @ ''"!!!'' @ [CHR 0x0A])), s1))\<close>

section \<open>The invariant of the column store\<close>

text \<open>
  Every key of either column map is a key of the type map. The converse is not part
  of it: the type map also holds the names of the schema that are not attached.
\<close>

definition columns_typed :: "('f, 'v) NTupleReader \<Rightarrow> bool" where
  "columns_typed s = (dom (branchMap s) \<union> dom (branchVecMap s) \<subseteq> dom (typeMap s))"

section \<open>A sample session\<close>

text \<open>
  The source of the end-to-end scenario: a scalar \<^verbatim>\<open>count\<close> of type \<^verbatim>\<open>int\<close> and a
  vector \<^verbatim>\<open>vals\<close> of type \<^verbatim>\<open>vector<double>\<close>. Values are integers and the source
  delivers, for entry \<open>n\<close>, the value \<open>n\<close> itself: into the bound cell of a scalar,
  and for a bound pointer cell into the collection it points to (allocated when the
  pointer is null). The reader stands on its first row (\<open>nevt = 1\<close>) with the schema
  known and nothing attached.
\<close>

definition sample_tree :: "int TTree" where
  "sample_tree =
     \<lparr>branches = [''count'' \<mapsto> T_int, ''vals'' \<mapsto> T_vector T_double],
      status = (\<lambda>name. False),
      address = Map.empty,
      deliver = (\<lambda>name n a M.
        case cells M a of
          Some (Pointer q) \<Rightarrow>
            (if q = 0
             then (case new_object (Value n) M of
                     (q', M') \<Rightarrow> M'\<lparr>cells := (cells M')(a \<mapsto> Pointer q')\<rparr>)
             else M\<lparr>cells := (cells M)(q \<mapsto> Value n)\<rparr>)
        | _ \<Rightarrow> M\<lparr>cells := (cells M)(a \<mapsto> Value n)\<rparr>)\<rparr>"

definition sample_reader :: "(nat, int) NTupleReader" where
  "sample_reader =
     \<lparr>tree = sample_tree, nevt = 1, evtProcessed = 1, isUpdateDisabled = False,
      reThrow = False, convertHackActive = False, prefix = [],
      branchMap = Map.empty, branchVecMap = Map.empty, functionVec = [],
      typeMap = [''count'' \<mapsto> demangle T_int, ''vals'' \<mapsto> demangle (T_vector T_double)],
      activeBranches = {},
      heap = \<lparr>cells = Map.empty, brk = 100\<rparr>,
      printed = []\<rparr>"

text \<open>The same session with \<^verbatim>\<open>count\<close> attached, as \<^verbatim>\<open>registerBranch<int>\<close> leaves it.\<close>

definition count_attached :: "(nat, int) NTupleReader" where
  "count_attached = registerBranch T_int ''count'' sample_reader"

text \<open>The sample session after the first event window has closed.\<close>

definition late_reader :: "(nat, int) NTupleReader" where
  "late_reader = sample_reader\<lparr>evtProcessed := 2\<rparr>"

text \<open>
  A session with a derived vector: the caller's collection lives at address 100 and
  \<^verbatim>\<open>registerDerivedVec<std::vector<double>>("scaled", ...)\<close> has taken it over.
\<close>

definition scaled_registered :: "(nat, int) NTupleReader" where
  "scaled_registered =
     snd (registerDerivedVec (T_vector T_double) ''scaled'' 100
            (sample_reader\<lparr>heap := snd (new_object (Value 42) (heap sample_reader))\<rparr>))"

text \<open>The late session with \<^verbatim>\<open>reThrow_\<close> set.\<close>

definition strict_late_reader :: "(nat, int) NTupleReader" where
  "strict_late_reader = late_reader\<lparr>reThrow := True\<rparr>"

text \<open>The handle of \<^verbatim>\<open>count\<close> and the store after its \<^verbatim>\<open>destroy()\<close>.\<close>

definition count_handle :: Handle where
  "count_handle = \<lparr>ptr = 100, deleter = 101, type = T_int\<rparr>"

definition count_destroyed :: "int memory" where
  "count_destroyed =
     (heap count_attached)\<lparr>cells := (cells (heap count_attached))(100 := None, 101 := None)\<rparr>"

text \<open>The sample session with \<^verbatim>\<open>vals\<close> attached, as \<^verbatim>\<open>registerVecBranch<double>\<close> leaves it.\<close>

definition vals_attached :: "(nat, int) NTupleReader" where
  "vals_attached = registerVecBranch T_double ''vals'' sample_reader"

text \<open>
  Sessions with the conversion hack enabled; the store already holds one collection
  of the caller at address 100. \<open>shadow_reader\<close> has the branches \<^verbatim>\<open>vals\<close> and
  \<^verbatim>\<open>count\<close> attached, the derived scalar \<^verbatim>\<open>met\<close>, and the shadows \<^verbatim>\<open>vals___f\<close>
  (vector), \<^verbatim>\<open>count___i\<close> and \<^verbatim>\<open>met___f\<close> (scalar). \<open>w_reader\<close> has a scalar column
  \<^verbatim>\<open>w\<close> of type \<^verbatim>\<open>vector<double>\<close> with a scalar shadow \<^verbatim>\<open>w___d\<close> and a vector
  shadow \<^verbatim>\<open>w___f\<close>.
\<close>

definition hack_on :: "(nat, int) NTupleReader" where
  "hack_on =
     sample_reader\<lparr>convertHackActive := True,
       heap := snd (new_object (Value 42) (heap sample_reader))\<rparr>"

definition shadow_reader :: "(nat, int) NTupleReader" where
  "shadow_reader =
     snd (registerDerivedVar T_float ''met___f'' 2
       (snd (registerDerivedVar T_double ''met'' 2
         (snd (registerDerivedVar T_float ''count___i'' 3
           (snd (registerDerivedVec (T_vector T_float) ''vals___f'' 100
             (registerBranch T_int ''count'' (registerVecBranch T_double ''vals'' hack_on)))))))))"

definition w_reader :: "(nat, int) NTupleReader" where
  "w_reader =
     snd (registerDerivedVec (T_vector T_float) ''w___f'' 100
       (snd (registerDerivedVar T_double ''w___d'' 8
         (snd (registerDerivedVar (T_vector T_double) ''w'' 7 hack_on)))))"

text \<open>
  The sample session standing on its third row, and one whose type map knows a name,
  \<^verbatim>\<open>ghost\<close>, that the source does not have.
\<close>

definition third_row :: "(nat, int) NTupleReader" where
  "third_row = sample_reader\<lparr>nevt := 3\<rparr>"

definition ghost_reader :: "(nat, int) NTupleReader" where
  "ghost_reader = sample_reader\<lparr>typeMap := (typeMap sample_reader)(''ghost'' \<mapsto> ''double'')\<rparr>"

text \<open>
  Sessions with the prefix \<^verbatim>\<open>p_\<close> set. In \<open>prefixed_reader\<close> the source has the
  branches \<^verbatim>\<open>n\<close> and \<^verbatim>\<open>p_n\<close>, both \<^verbatim>\<open>int\<close> and both attached; in \<open>prefix_only\<close>
  it has \<^verbatim>\<open>p_n\<close> alone, attached; in \<open>prefix_ghost\<close> the type map knows \<^verbatim>\<open>p_ghost\<close> as
  \<^verbatim>\<open>double\<close> and the source has no such branch.
\<close>

definition prefixed_reader :: "(nat, int) NTupleReader" where
  "prefixed_reader =
     registerBranch T_int ''p_n''
       (registerBranch T_int ''n''
          (sample_reader\<lparr>prefix := ''p_'',
             tree := sample_tree\<lparr>branches := [''n'' \<mapsto> T_int, ''p_n'' \<mapsto> T_int]\<rparr>,
             typeMap := [''n'' \<mapsto> demangle T_int, ''p_n'' \<mapsto> demangle T_int]\<rparr>))"

definition prefix_only :: "(nat, int) NTupleReader" where
  "prefix_only =
     registerBranch T_int ''p_n''
       (sample_reader\<lparr>prefix := ''p_'',
          tree := sample_tree\<lparr>branches := [''p_n'' \<mapsto> T_int]\<rparr>,
          typeMap := [''p_n'' \<mapsto> demangle T_int]\<rparr>)"

definition prefix_ghost :: "(nat, int) NTupleReader" where
  "prefix_ghost =
     sample_reader\<lparr>prefix := ''p_'',
       typeMap := (typeMap sample_reader)(''p_ghost'' \<mapsto> ''double'')\<rparr>"

text \<open>The unfolding rules by which the sample sessions are evaluated.\<close>

lemmas sample_defs = sample_reader_def sample_tree_def

lemmas register_defs = registerBranch_def registerVecBranch_def registerDerivedVar_def
  try_registerDerivedVar_def registerDerivedVec_def try_registerDerivedVec_def
  catch_register_def setDerived_def new_object_def delete_object_def createHandle_def
  createVecHandle_def SetBranchAddress_def SetBranchStatus_def

lemmas lookup_defs = getTupleObj_def resolveName_def checkBranch_def not_found_def
  FindBranch_def

section \<open>The pipeline wrapper returns true\<close>

text \<open>
  Claim C9. For every registered callable \<open>f\<close>, whatever it returns, the stored
  wrapper's invocation runs \<open>f\<close> once on the session (the session it hands back is
  the one a single call of \<open>f\<close> produces) and returns \<open>True\<close>; the value \<open>b\<close> that a
  callable returns never reaches the caller of the wrapper.
\<close>

theorem wrapper_returns_true:
  "call_operator (FuncWrapperImpl f) tr = (True, snd (f tr))
   \<and> call_operator (FuncWrapperImpl (\<lambda>s. (b, g s))) tr = (True, g tr)"
  by (simp add: split_def)

section \<open>Registration after the first event\<close>

lemma msg_redefine_not_past_init: "msg_redefine name \<noteq> msg_past_init"
  by (simp add: msg_redefine_def msg_past_init_def)

lemma registerDerivedVar_functionVec:
  "functionVec (snd (registerDerivedVar T name v s)) = functionVec s"
  by (auto simp add: registerDerivedVar_def try_registerDerivedVar_def catch_register_def
      setDerived_def new_object_def createHandle_def Let_def
      split: option.splits result.splits prod.splits)

lemma registerDerivedVec_functionVec:
  "functionVec (snd (registerDerivedVec T name p s)) = functionVec s"
  by (auto simp add: registerDerivedVec_def try_registerDerivedVec_def catch_register_def
      setDerived_def new_object_def createVecHandle_def delete_object_def Let_def
      split: option.splits result.splits prod.splits obj.splits if_splits)

lemma registerDerivedVar_outcome:
  "fst (registerDerivedVar T name v s) = Return ()
   \<or> fst (registerDerivedVar T name v s) = Undefined
   \<or> fst (registerDerivedVar T name v s) = Throw (SATException (msg_redefine name))"
  by (auto simp add: registerDerivedVar_def try_registerDerivedVar_def catch_register_def
      setDerived_def new_object_def createHandle_def Let_def
      split: option.splits result.splits prod.splits)

lemma registerDerivedVec_outcome:
  "fst (registerDerivedVec T name p s) = Return ()
   \<or> fst (registerDerivedVec T name p s) = Undefined
   \<or> fst (registerDerivedVec T name p s) = Throw (SATException (msg_redefine name))"
  by (auto simp add: registerDerivedVec_def try_registerDerivedVec_def catch_register_def
      setDerived_def new_object_def createVecHandle_def delete_object_def Let_def
      split: option.splits result.splits prod.splits obj.splits if_splits)

text \<open>
  Claim C2, as the header has it. Once \<^verbatim>\<open>evtProcessed_\<close> exceeds 1,
  \<^verbatim>\<open>registerFunction\<close> throws its "cannot be registered" exception and leaves the
  whole session, the list of registered functions with it, as it was. The two
  derived registrations do not look at the event counter: they never change the list
  of registered functions, and they never end in that exception.
\<close>

theorem registration_after_first_event:
  "1 < evtProcessed s \<Longrightarrow>
     registerFunction f s = (Throw (SATException msg_past_init), s)
     \<and> functionVec (snd (registerDerivedVar T name v s)) = functionVec s
     \<and> functionVec (snd (registerDerivedVec T name p s)) = functionVec s
     \<and> fst (registerDerivedVar T name v s) \<noteq> Throw (SATException msg_past_init)
     \<and> fst (registerDerivedVec T name p s) \<noteq> Throw (SATException msg_past_init)"
  using registerDerivedVar_outcome [of T name v s] registerDerivedVec_outcome [of T name p s]
    msg_redefine_not_past_init [of name]
  by (auto simp add: registerFunction_def isFirstEvent_def registerDerivedVar_functionVec
      registerDerivedVec_functionVec)

text \<open>
  The theorem at the late sample session: the function numbered 0 is refused, and a
  derived scalar and a derived vector leave the function list alone.
\<close>

theorem registration_after_first_event_witness:
  "1 < evtProcessed late_reader
   \<and> registerFunction 0 late_reader = (Throw (SATException msg_past_init), late_reader)
   \<and> functionVec (snd (registerDerivedVar T_int ''total'' 10 late_reader)) = functionVec late_reader
   \<and> functionVec (snd (registerDerivedVec T_int ''total'' 0 late_reader)) = functionVec late_reader"
proof -
  have h: "1 < evtProcessed late_reader"
    by (simp add: late_reader_def sample_reader_def)
  show ?thesis
    using h registration_after_first_event [OF h, of 0 T_int "''total''" 10 0]
    by simp
qed

text \<open>
  Claim C2 as stated fails for the derived registrations: with two rows processed,
  \<^verbatim>\<open>registerDerivedVar<int>("total", 10)\<close> returns normally and creates the column.
\<close>

theorem late_registerDerivedVar_succeeds:
  "1 < evtProcessed late_reader
   \<and> fst (registerDerivedVar T_int ''total'' 10 late_reader) = Return ()
   \<and> branchMap (snd (registerDerivedVar T_int ''total'' 10 late_reader)) ''total''
       = Some \<lparr>ptr = 100, deleter = 101, type = T_int\<rparr>
   \<and> cells (heap (snd (registerDerivedVar T_int ''total'' 10 late_reader))) 100 = Some (Value 10)"
  by (simp add: late_reader_def sample_reader_def registerDerivedVar_def
      try_registerDerivedVar_def catch_register_def setDerived_def new_object_def
      createHandle_def)

section \<open>Every attached column has a type name\<close>

lemma registerBranch_typed: "columns_typed s \<Longrightarrow> columns_typed (registerBranch T name s)"
  by (auto simp add: columns_typed_def registerBranch_def new_object_def createHandle_def
      split: prod.splits)

lemma registerVecBranch_typed: "columns_typed s \<Longrightarrow> columns_typed (registerVecBranch T name s)"
  by (auto simp add: columns_typed_def registerVecBranch_def new_object_def createVecHandle_def
      split: prod.splits)

lemma registerBranch_TBranch_typed:
  "columns_typed s \<Longrightarrow> columns_typed (registerBranch_TBranch b s)"
  by (simp add: registerBranch_TBranch_def registerBranch_typed registerVecBranch_typed
      split: ctype.splits)

lemma registerDerivedVar_typed:
  "columns_typed s \<Longrightarrow> columns_typed (snd (registerDerivedVar T name v s))"
  by (auto simp add: columns_typed_def registerDerivedVar_def try_registerDerivedVar_def
      catch_register_def setDerived_def new_object_def createHandle_def Let_def
      split: option.splits result.splits prod.splits)

lemma registerDerivedVec_typed:
  "columns_typed s \<Longrightarrow> columns_typed (snd (registerDerivedVec T name p s))"
  by (auto simp add: columns_typed_def registerDerivedVec_def try_registerDerivedVec_def
      catch_register_def setDerived_def new_object_def createVecHandle_def delete_object_def Let_def
      split: option.splits result.splits prod.splits obj.splits if_splits)

lemma updateTupleVar_typed:
  "columns_typed s \<Longrightarrow> columns_typed (snd (updateTupleVar T name v s))"
  by (auto simp add: columns_typed_def updateTupleVar_def
      setDerived_def new_object_def createVecHandle_def Let_def
      split: option.splits result.splits prod.splits if_splits)

lemma columns_typed_heap: "columns_typed (s\<lparr>heap := M\<rparr>) = columns_typed s"
  by (simp add: columns_typed_def)

lemma getTupleObj_typed:
  "columns_typed s \<Longrightarrow> columns_typed (snd (getTupleObj T var v_tuple fl c s))"
  by (auto simp add: getTupleObj_def Let_def columns_typed_heap registerBranch_TBranch_typed
      split: option.splits result.splits if_splits)

lemma sample_reader_typed: "columns_typed sample_reader"
  by (simp add: columns_typed_def sample_reader_def)

text \<open>
  Claim C10. Every operation of the header that inserts into a column map (the two
  branch registrations and the overload that chooses between them, the two derived
  registrations, the private writer, and the accessor's attachment on demand) keeps
  the invariant that each key of either column map is a key of the type map. The
  converse is no part of it: in the sample session with \<^verbatim>\<open>count\<close> attached, \<^verbatim>\<open>vals\<close>
  is known to the type map and attached in neither column map.
\<close>

theorem columns_typed_preserved:
  "(columns_typed s \<longrightarrow>
      columns_typed (registerBranch T name s)
      \<and> columns_typed (registerVecBranch T name s)
      \<and> columns_typed (registerBranch_TBranch b s)
      \<and> columns_typed (snd (registerDerivedVar T name v s))
      \<and> columns_typed (snd (registerDerivedVec T name p s))
      \<and> columns_typed (snd (updateTupleVar T name v s))
      \<and> columns_typed (snd (getTupleObj T var v_tuple fl c s)))
   \<and> columns_typed count_attached
   \<and> \<not> dom (typeMap count_attached)
         \<subseteq> dom (branchMap count_attached) \<union> dom (branchVecMap count_attached)"
proof -
  have typed: "columns_typed count_attached"
    unfolding count_attached_def by (rule registerBranch_typed [OF sample_reader_typed])
  have "''vals'' \<in> dom (typeMap count_attached)"
    by (simp add: count_attached_def sample_reader_def registerBranch_def new_object_def
        createHandle_def)
  moreover have "''vals'' \<notin> dom (branchMap count_attached) \<union> dom (branchVecMap count_attached)"
    by (simp add: count_attached_def sample_reader_def registerBranch_def new_object_def
        createHandle_def)
  ultimately have "\<not> dom (typeMap count_attached)
         \<subseteq> dom (branchMap count_attached) \<union> dom (branchVecMap count_attached)"
    by blast
  with typed show ?thesis
    by (simp add: registerBranch_typed registerVecBranch_typed registerBranch_TBranch_typed
      registerDerivedVar_typed registerDerivedVec_typed updateTupleVar_typed getTupleObj_typed)
qed

text \<open>
  The theorem at the sample session: registering the derived scalar \<^verbatim>\<open>total\<close> and
  attaching \<^verbatim>\<open>vals\<close> keep the invariant, and each new key has its type name.
\<close>

theorem columns_typed_preserved_witness:
  "columns_typed sample_reader
   \<and> columns_typed (registerVecBranch T_double ''vals'' sample_reader)
   \<and> columns_typed (snd (registerDerivedVar T_int ''total'' 10 sample_reader))
   \<and> typeMap (snd (registerDerivedVar T_int ''total'' 10 sample_reader)) ''total'' = Some ''int''
   \<and> typeMap (registerVecBranch T_double ''vals'' sample_reader) ''vals''
       = Some ''std::vector<double, std::allocator<double> >''"
proof -
  have "typeMap (snd (registerDerivedVar T_int ''total'' 10 sample_reader)) ''total'' = Some ''int''"
    by (simp add: sample_reader_def registerDerivedVar_def try_registerDerivedVar_def
        catch_register_def setDerived_def new_object_def createHandle_def)
  moreover have "typeMap (registerVecBranch T_double ''vals'' sample_reader) ''vals''
       = Some ''std::vector<double, std::allocator<double> >''"
    by (simp add: sample_reader_def registerVecBranch_def new_object_def createVecHandle_def)
  moreover note sample_reader_typed
  moreover have "columns_typed (registerVecBranch T_double ''vals'' sample_reader)"
    using sample_reader_typed
      columns_typed_preserved [of sample_reader T_double "''vals''"]
    by blast
  moreover have "columns_typed (snd (registerDerivedVar T_int ''total'' 10 sample_reader))"
    using sample_reader_typed
      columns_typed_preserved [of sample_reader T_int "''total''" _ 10]
    by blast
  ultimately show ?thesis
    by blast
qed

section \<open>What the accessors do with a failure\<close>

lemma registerBranch_TBranch_flags:
  "reThrow (registerBranch_TBranch b s) = reThrow s
   \<and> evtProcessed (registerBranch_TBranch b s) = evtProcessed s
   \<and> printed (registerBranch_TBranch b s) = printed s"
  by (simp add: registerBranch_TBranch_def registerBranch_def registerVecBranch_def
      split: ctype.splits prod.splits)

lemma getTupleObj_flags:
  "reThrow (snd (getTupleObj T var v_tuple fl c s)) = reThrow s
   \<and> evtProcessed (snd (getTupleObj T var v_tuple fl c s)) = evtProcessed s
   \<and> printed (snd (getTupleObj T var v_tuple fl c s)) = printed s"
  by (simp add: getTupleObj_def Let_def registerBranch_TBranch_flags
      split: option.splits result.splits)

lemma catch_accessor_Throw:
  "catch_accessor (Throw e, s') =
     ((if reThrow s' then Throw e else Return 0),
      (if evtProcessed s' \<le> 1 then s'\<lparr>printed := printed s' @ [e]\<rparr> else s'))"
  by (simp add: catch_accessor_def isFirstEvent_def Let_def)

lemma catch_accessor_Return: "catch_accessor (Return a, s') = (Return a, s')"
  by (simp add: catch_accessor_def)

lemma deref_cell_Throw: "deref_cell (Throw e, s') = (Throw e, s')"
  by (simp add: deref_cell_def)

lemma getTupleObj_Throw_flags:
  assumes "getTupleObj T var v_tuple fl c s = (Throw e, s')"
  shows "reThrow s' = reThrow s \<and> evtProcessed s' = evtProcessed s \<and> printed s' = printed s"
  using getTupleObj_flags [of T var v_tuple fl c s] assms by simp

text \<open>
  Claim C6. When the body of a typed accessor throws \<open>e\<close>, leaving the session
  \<open>s'\<close>: with \<^verbatim>\<open>reThrow_\<close> unset the accessor returns the reference made from the null
  pointer (address \<open>0\<close>), with it set the exception \<open>e\<close> leaves the accessor; either
  way \<open>e\<close> is printed exactly when \<^verbatim>\<open>evtProcessed_\<close> is at most 1.
\<close>

theorem accessor_failure:
  "(getTupleObj T var branchMap fl c s = (Throw e, s') \<longrightarrow>
      getVar T var fl c s =
        ((if reThrow s then Throw e else Return 0),
         (if evtProcessed s \<le> 1 then s'\<lparr>printed := printed s @ [e]\<rparr> else s')))
   \<and> (getTupleObj (T_pointer (T_vector T)) var branchVecMap fl c s = (Throw e, s') \<longrightarrow>
      getVec T var fl c s =
        ((if reThrow s then Throw e else Return 0),
         (if evtProcessed s \<le> 1 then s'\<lparr>printed := printed s @ [e]\<rparr> else s')))
   \<and> (getTupleObj (T_pointer (T_map T V)) var branchVecMap False c s = (Throw e, s') \<longrightarrow>
      getMap T V var c s =
        ((if reThrow s then Throw e else Return 0),
         (if evtProcessed s \<le> 1 then s'\<lparr>printed := printed s @ [e]\<rparr> else s')))"
proof (intro conjI impI)
  assume a: "getTupleObj T var branchMap fl c s = (Throw e, s')"
  show "getVar T var fl c s =
        ((if reThrow s then Throw e else Return 0),
         (if evtProcessed s \<le> 1 then s'\<lparr>printed := printed s @ [e]\<rparr> else s'))"
    using getTupleObj_Throw_flags [OF a] by (simp add: getVar_def a catch_accessor_Throw)
next
  assume a: "getTupleObj (T_pointer (T_vector T)) var branchVecMap fl c s = (Throw e, s')"
  show "getVec T var fl c s =
        ((if reThrow s then Throw e else Return 0),
         (if evtProcessed s \<le> 1 then s'\<lparr>printed := printed s @ [e]\<rparr> else s'))"
    using getTupleObj_Throw_flags [OF a]
    by (simp add: getVec_def a deref_cell_Throw catch_accessor_Throw)
next
  assume a: "getTupleObj (T_pointer (T_map T V)) var branchVecMap False c s = (Throw e, s')"
  show "getMap T V var c s =
        ((if reThrow s then Throw e else Return 0),
         (if evtProcessed s \<le> 1 then s'\<lparr>printed := printed s @ [e]\<rparr> else s'))"
    using getTupleObj_Throw_flags [OF a]
    by (simp add: getMap_def a deref_cell_Throw catch_accessor_Throw)
qed

text \<open>
  The theorem at the sample session, where the name \<^verbatim>\<open>nothere\<close> is unknown: on the
  first event without rethrow the three accessors print and return the null
  reference; in the late session with rethrow they throw and print nothing.
\<close>

theorem accessor_failure_witness:
  "getVar T_float ''nothere'' False (CHR ''x'') sample_reader
     = (Return 0, sample_reader\<lparr>printed := [SATException (msg_not_found ''nothere'' T_float)]\<rparr>)
   \<and> getVec T_float ''nothere'' False (CHR ''x'') sample_reader
     = (Return 0,
        sample_reader\<lparr>printed := [SATException (msg_not_found ''nothere'' (T_vector T_float))]\<rparr>)
   \<and> getMap T_int T_float ''nothere'' (CHR ''x'') strict_late_reader
     = (Throw (SATException (msg_not_found ''nothere'' (T_map T_int T_float))), strict_late_reader)"
proof -
  have a: "getTupleObj T_float ''nothere'' branchMap False (CHR ''x'') sample_reader
             = (Throw (SATException (msg_not_found ''nothere'' T_float)), sample_reader)"
    by (simp add: lookup_defs sample_defs late_reader_def strict_late_reader_def)
  have b: "getTupleObj (T_pointer (T_vector T_float)) ''nothere'' branchVecMap False (CHR ''x'')
             sample_reader
             = (Throw (SATException (msg_not_found ''nothere'' (T_vector T_float))), sample_reader)"
    by (simp add: lookup_defs sample_defs late_reader_def strict_late_reader_def)
  have c: "getTupleObj (T_pointer (T_map T_int T_float)) ''nothere'' branchVecMap False (CHR ''x'')
             strict_late_reader
             = (Throw (SATException (msg_not_found ''nothere'' (T_map T_int T_float))),
                strict_late_reader)"
    by (simp add: lookup_defs sample_defs late_reader_def strict_late_reader_def)
  have "getVar T_float ''nothere'' False (CHR ''x'') sample_reader
     = (Return 0, sample_reader\<lparr>printed := [SATException (msg_not_found ''nothere'' T_float)]\<rparr>)"
    using a accessor_failure [where T = T_float and var = "''nothere''" and fl = False
        and c = "CHR ''x''" and s = sample_reader and s' = sample_reader
        and e = "SATException (msg_not_found ''nothere'' T_float)"]
    by (simp add: sample_reader_def)
  moreover have "getVec T_float ''nothere'' False (CHR ''x'') sample_reader
     = (Return 0,
        sample_reader\<lparr>printed := [SATException (msg_not_found ''nothere'' (T_vector T_float))]\<rparr>)"
    using b accessor_failure [where T = T_float and var = "''nothere''" and fl = False
        and c = "CHR ''x''" and s = sample_reader and s' = sample_reader
        and e = "SATException (msg_not_found ''nothere'' (T_vector T_float))"]
    by (simp add: sample_reader_def)
  moreover have "getMap T_int T_float ''nothere'' (CHR ''x'') strict_late_reader
     = (Throw (SATException (msg_not_found ''nothere'' (T_map T_int T_float))), strict_late_reader)"
    using c accessor_failure [where T = T_int and V = T_float and var = "''nothere''"
        and c = "CHR ''x''" and s = strict_late_reader and s' = strict_late_reader
        and e = "SATException (msg_not_found ''nothere'' (T_map T_int T_float))"]
    by (simp add: sample_defs late_reader_def strict_late_reader_def)
  ultimately show ?thesis by simp
qed

section \<open>The flag that skips the type check\<close>

lemma getTupleObj_forceLoad:
  "v_tuple s (resolveName s var) = Some h \<Longrightarrow>
     getTupleObj T var v_tuple True c s = (Return (ptr h), s)"
  by (simp add: getTupleObj_def Let_def)

lemma resolveName_no_prefix: "prefix s = [] \<Longrightarrow> resolveName s var = var"
  by (simp add: resolveName_def)

text \<open>
  Claim C8, as the header has it. With the boolean flag set, a request whose resolved
  name (\<^verbatim>\<open>prefix_ + name\<close> when the type map knows it, the name itself otherwise) is
  attached in the map searched returns the stored cell of the resolved name for every
  requested type \<open>T\<close>: the recorded tag \<open>type h\<close> is not consulted, and the session
  is unchanged. \<^verbatim>\<open>getVec\<close> then returns the collection the cell points to. With the
  empty prefix of a new reader every name resolves to itself, and the cell returned
  is the one attached under the name passed.
\<close>

theorem forceLoad_skips_type_check:
  "(branchMap s (resolveName s var) = Some h \<longrightarrow>
      getVar T var True c s = (Return (ptr h), s))
   \<and> (branchVecMap s (resolveName s var) = Some h \<longrightarrow>
        getTupleObj (T_pointer (T_vector T)) var branchVecMap True c s = (Return (ptr h), s)
        \<and> (cells (heap s) (ptr h) = Some (Pointer q) \<longrightarrow>
             getVec T var True c s = (Return q, s)))
   \<and> (prefix s = [] \<and> branchMap s var = Some h \<longrightarrow>
        getVar T var True c s = (Return (ptr h), s))
   \<and> (prefix s = [] \<and> branchVecMap s var = Some h
        \<and> cells (heap s) (ptr h) = Some (Pointer q) \<longrightarrow>
        getVec T var True c s = (Return q, s))"
  by (simp add: getVar_def getVec_def getTupleObj_forceLoad catch_accessor_Return deref_cell_def
      resolveName_no_prefix)

text \<open>
  The theorem at the sample sessions: \<^verbatim>\<open>count\<close> is attached as \<^verbatim>\<open>int\<close> and read as
  \<^verbatim>\<open>float\<close>; \<^verbatim>\<open>scaled\<close> is a derived \<^verbatim>\<open>vector<double>\<close> and read as
  \<^verbatim>\<open>vector<float>\<close>; under the prefix \<^verbatim>\<open>p_\<close> the name \<^verbatim>\<open>n\<close> resolves to \<^verbatim>\<open>p_n\<close>,
  attached at address 102.
\<close>

theorem forceLoad_skips_type_check_witness:
  "branchMap count_attached ''count'' = Some \<lparr>ptr = 100, deleter = 101, type = T_int\<rparr>
   \<and> getVar T_float ''count'' True (CHR ''x'') count_attached = (Return 100, count_attached)
   \<and> branchVecMap scaled_registered ''scaled''
        = Some \<lparr>ptr = 101, deleter = 102, type = T_vector T_double\<rparr>
   \<and> getVec T_float ''scaled'' True (CHR ''x'') scaled_registered = (Return 100, scaled_registered)
   \<and> resolveName prefixed_reader ''n'' = ''p_n''
   \<and> getVar T_float ''n'' True (CHR ''x'') prefixed_reader = (Return 102, prefixed_reader)"
proof -
  have p: "resolveName prefixed_reader ''n'' = ''p_n''"
    by (simp add: resolveName_def checkBranch_def prefixed_reader_def sample_defs register_defs)
  have p': "branchMap prefixed_reader ''p_n'' = Some \<lparr>ptr = 102, deleter = 103, type = T_int\<rparr>"
    by (simp add: prefixed_reader_def sample_defs register_defs)
  have pw: "getVar T_float ''n'' True (CHR ''x'') prefixed_reader = (Return 102, prefixed_reader)"
    using p p' forceLoad_skips_type_check [where s = prefixed_reader and var = "''n''"
        and h = "\<lparr>ptr = 102, deleter = 103, type = T_int\<rparr>" and T = T_float and c = "CHR ''x''"]
    by simp
  have a: "branchMap count_attached (resolveName count_attached ''count'')
             = Some \<lparr>ptr = 100, deleter = 101, type = T_int\<rparr>"
    by (simp add: lookup_defs sample_defs count_attached_def scaled_registered_def register_defs)
  have a': "branchMap count_attached ''count'' = Some \<lparr>ptr = 100, deleter = 101, type = T_int\<rparr>"
    by (simp add: sample_defs count_attached_def scaled_registered_def register_defs)
  have b: "branchVecMap scaled_registered (resolveName scaled_registered ''scaled'')
             = Some \<lparr>ptr = 101, deleter = 102, type = T_vector T_double\<rparr>"
    by (simp add: lookup_defs sample_defs count_attached_def scaled_registered_def register_defs)
  have b': "branchVecMap scaled_registered ''scaled''
             = Some \<lparr>ptr = 101, deleter = 102, type = T_vector T_double\<rparr>"
    by (simp add: sample_defs count_attached_def scaled_registered_def register_defs)
  have d: "cells (heap scaled_registered) 101 = Some (Pointer 100)"
    by (simp add: sample_defs count_attached_def scaled_registered_def register_defs)
  have "getVar T_float ''count'' True (CHR ''x'') count_attached = (Return 100, count_attached)"
    using a forceLoad_skips_type_check [where s = count_attached and var = "''count''"
        and h = "\<lparr>ptr = 100, deleter = 101, type = T_int\<rparr>" and T = T_float and c = "CHR ''x''"]
    by simp
  moreover have "getVec T_float ''scaled'' True (CHR ''x'') scaled_registered
                   = (Return 100, scaled_registered)"
    using b d forceLoad_skips_type_check [where s = scaled_registered and var = "''scaled''"
        and h = "\<lparr>ptr = 101, deleter = 102, type = T_vector T_double\<rparr>" and T = T_float
        and c = "CHR ''x''" and q = 100]
    by simp
  ultimately show ?thesis using a' b' p pw by simp
qed

text \<open>
  Claim C8 as stated fails under a prefix. In \<open>prefixed_reader\<close> the name \<^verbatim>\<open>n\<close> is
  attached at address 100 and \<^verbatim>\<open>p_n\<close> at address 102; \<^verbatim>\<open>getVar<float>("n", true)\<close>
  resolves the name to \<^verbatim>\<open>p_n\<close> and returns the cell at 102, not the cell stored
  under the name passed.
\<close>

theorem prefixed_name_reads_other_column:
  "prefix prefixed_reader = ''p_''
   \<and> branchMap prefixed_reader ''n'' = Some \<lparr>ptr = 100, deleter = 101, type = T_int\<rparr>
   \<and> branchMap prefixed_reader ''p_n'' = Some \<lparr>ptr = 102, deleter = 103, type = T_int\<rparr>
   \<and> getVar T_float ''n'' True (CHR ''x'') prefixed_reader = (Return 102, prefixed_reader)"
proof -
  have p: "resolveName prefixed_reader ''n'' = ''p_n''"
    by (simp add: resolveName_def checkBranch_def prefixed_reader_def sample_defs register_defs)
  have m: "prefix prefixed_reader = ''p_''"
    "branchMap prefixed_reader ''n'' = Some \<lparr>ptr = 100, deleter = 101, type = T_int\<rparr>"
    "branchMap prefixed_reader ''p_n'' = Some \<lparr>ptr = 102, deleter = 103, type = T_int\<rparr>"
    by (simp_all add: prefixed_reader_def sample_defs register_defs)
  have "getTupleObj T_float ''n'' branchMap True (CHR ''x'') prefixed_reader
          = (Return 102, prefixed_reader)"
    using p m
      getTupleObj_forceLoad [where v_tuple = branchMap and s = prefixed_reader and var = "''n''"
        and T = T_float and c = "CHR ''x''"
        and h = "\<lparr>ptr = 102, deleter = 103, type = T_int\<rparr>"]
    by simp
  then have "getVar T_float ''n'' True (CHR ''x'') prefixed_reader = (Return 102, prefixed_reader)"
    by (simp add: getVar_def catch_accessor_Return)
  with m show ?thesis by simp
qed

section \<open>A mismatched type without the conversion hack\<close>

lemma getTupleObj_mismatch:
  "\<not> convertHackActive s \<Longrightarrow> v_tuple s (resolveName s var) = Some h
     \<Longrightarrow> type h \<noteq> remove_pointer T
     \<Longrightarrow> getTupleObj T var v_tuple False c s = (Throw (not_found T var s), s)"
  by (simp add: getTupleObj_def Let_def)

lemma not_found_typed:
  "typeMap s var = Some found
     \<Longrightarrow> not_found T var s = SATException (msg_not_found_typed var (remove_pointer T) found)"
  by (simp add: not_found_def)

lemma getTupleObj_exact:
  "v_tuple s (resolveName s var) = Some h \<Longrightarrow> type h = remove_pointer T
     \<Longrightarrow> getTupleObj T var v_tuple fl c s = (Return (ptr h), s)"
  by (simp add: getTupleObj_def Let_def)

text \<open>
  Claim C1, as the header has it. With the conversion hack disabled and the boolean
  flag of the accessor false, a request whose resolved name is attached under a tag
  other than \<^verbatim>\<open>std::remove_pointer<T>::type\<close> of the requested type \<open>T\<close> (the type the
  header compares the tag with; \<^verbatim>\<open>vector<T>\<close> for \<^verbatim>\<open>getVec<T>\<close>) makes \<^verbatim>\<open>getTupleObj\<close>
  throw its "Variable not found" exception and change nothing. \<^verbatim>\<open>getVar\<close> and \<^verbatim>\<open>getVec\<close> then rethrow it or return
  the null reference, as \<^verbatim>\<open>reThrow_\<close> says, and print it on the first event; the
  storage of the column is never what they return. When the name resolved to itself
  and the type map holds the handle's type name, the message names the requested and
  the stored type.
\<close>

theorem mismatch_without_conversion:
  "\<not> convertHackActive s \<Longrightarrow>
     (branchMap s (resolveName s var) = Some h \<and> type h \<noteq> remove_pointer T \<longrightarrow>
        getTupleObj T var branchMap False c s = (Throw (not_found T var s), s)
        \<and> getVar T var False c s =
            ((if reThrow s then Throw (not_found T var s) else Return 0),
             (if evtProcessed s \<le> 1 then s\<lparr>printed := printed s @ [not_found T var s]\<rparr> else s))
        \<and> (ptr h \<noteq> 0 \<longrightarrow> fst (getVar T var False c s) \<noteq> Return (ptr h))
        \<and> (resolveName s var = var \<and> typeMap s var = Some (demangle (type h)) \<longrightarrow>
              not_found T var s
                = SATException (msg_not_found_typed var (remove_pointer T) (demangle (type h)))))
     \<and> (branchVecMap s (resolveName s var) = Some h \<and> type h \<noteq> T_vector T \<longrightarrow>
        getTupleObj (T_pointer (T_vector T)) var branchVecMap False c s
          = (Throw (not_found (T_pointer (T_vector T)) var s), s)
        \<and> getVec T var False c s =
            ((if reThrow s then Throw (not_found (T_pointer (T_vector T)) var s) else Return 0),
             (if evtProcessed s \<le> 1
              then s\<lparr>printed := printed s @ [not_found (T_pointer (T_vector T)) var s]\<rparr> else s))
        \<and> (resolveName s var = var \<and> typeMap s var = Some (demangle (type h)) \<longrightarrow>
              not_found (T_pointer (T_vector T)) var s
                = SATException (msg_not_found_typed var (T_vector T) (demangle (type h)))))"
  by (simp add: getVar_def getVec_def getTupleObj_mismatch catch_accessor_Throw deref_cell_Throw
      not_found_typed)

text \<open>
  The theorem at the sample session: \<^verbatim>\<open>count\<close>, attached as \<^verbatim>\<open>int\<close>, is asked for as
  \<^verbatim>\<open>float\<close>, and the derived \<^verbatim>\<open>vector<double>\<close> \<^verbatim>\<open>scaled\<close> as \<^verbatim>\<open>vector<float>\<close>. Both
  calls print the exception that names the two types and return the null reference.
\<close>

theorem mismatch_without_conversion_witness:
  "\<not> convertHackActive count_attached
   \<and> branchMap count_attached ''count'' = Some \<lparr>ptr = 100, deleter = 101, type = T_int\<rparr>
   \<and> getVar T_float ''count'' False (CHR ''x'') count_attached
       = (Return 0,
          count_attached\<lparr>printed :=
            [SATException (msg_not_found_typed ''count'' T_float ''int'')]\<rparr>)
   \<and> getVec T_float ''scaled'' False (CHR ''x'') scaled_registered
       = (Return 0,
          scaled_registered\<lparr>printed :=
            [SATException (msg_not_found_typed ''scaled'' (T_vector T_float)
               ''std::vector<double, std::allocator<double> >'')]\<rparr>)"
proof -
  have n1: "\<not> convertHackActive count_attached"
    by (simp add: sample_defs count_attached_def scaled_registered_def register_defs)
  have n2: "\<not> convertHackActive scaled_registered"
    by (simp add: sample_defs count_attached_def scaled_registered_def register_defs)
  have a: "branchMap count_attached (resolveName count_attached ''count'')
             = Some \<lparr>ptr = 100, deleter = 101, type = T_int\<rparr>"
    by (simp add: lookup_defs sample_defs count_attached_def scaled_registered_def register_defs)
  have a': "branchMap count_attached ''count'' = Some \<lparr>ptr = 100, deleter = 101, type = T_int\<rparr>"
    by (simp add: sample_defs count_attached_def scaled_registered_def register_defs)
  have b: "branchVecMap scaled_registered (resolveName scaled_registered ''scaled'')
             = Some \<lparr>ptr = 101, deleter = 102, type = T_vector T_double\<rparr>"
    by (simp add: lookup_defs sample_defs count_attached_def scaled_registered_def register_defs)
  have r1: "resolveName count_attached ''count'' = ''count''"
    by (simp add: lookup_defs sample_defs count_attached_def scaled_registered_def register_defs)
  have r2: "resolveName scaled_registered ''scaled'' = ''scaled''"
    by (simp add: lookup_defs sample_defs count_attached_def scaled_registered_def register_defs)
  have t1: "typeMap count_attached ''count'' = Some ''int''"
    by (simp add: sample_defs count_attached_def scaled_registered_def register_defs)
  have t2: "typeMap scaled_registered ''scaled''
              = Some ''std::vector<double, std::allocator<double> >''"
    by (simp add: sample_defs count_attached_def scaled_registered_def register_defs)
  have f1: "reThrow count_attached = False \<and> evtProcessed count_attached = 1
            \<and> printed count_attached = []"
    by (simp add: sample_defs count_attached_def scaled_registered_def register_defs)
  have f2: "reThrow scaled_registered = False \<and> evtProcessed scaled_registered = 1
            \<and> printed scaled_registered = []"
    by (simp add: sample_defs count_attached_def scaled_registered_def register_defs)
  have "getVar T_float ''count'' False (CHR ''x'') count_attached
       = (Return 0,
          count_attached\<lparr>printed :=
            [SATException (msg_not_found_typed ''count'' T_float ''int'')]\<rparr>)"
    using a r1 t1 f1 mismatch_without_conversion [OF n1, where var = "''count''"
        and h = "\<lparr>ptr = 100, deleter = 101, type = T_int\<rparr>" and T = T_float and c = "CHR ''x''"]
    by simp
  moreover have "getVec T_float ''scaled'' False (CHR ''x'') scaled_registered
       = (Return 0,
          scaled_registered\<lparr>printed :=
            [SATException (msg_not_found_typed ''scaled'' (T_vector T_float)
               ''std::vector<double, std::allocator<double> >'')]\<rparr>)"
    using b r2 t2 f2 mismatch_without_conversion [OF n2, where var = "''scaled''"
        and h = "\<lparr>ptr = 101, deleter = 102, type = T_vector T_double\<rparr>" and T = T_float
        and c = "CHR ''x''"]
    by simp
  ultimately show ?thesis using n1 a' by simp
qed

text \<open>
  Claim C1 as stated fails in three ways, all with the conversion hack disabled.
  When the caller sets the boolean flag, \<^verbatim>\<open>getVar<float>("count", true)\<close> on the column
  attached as \<^verbatim>\<open>int\<close> returns the storage of that column. The tag is compared with
  the requested type less one pointer level, so \<^verbatim>\<open>getVar<int*>("count")\<close> returns that
  storage as well. And the exception looks the type name up under the name as passed:
  under the prefix \<^verbatim>\<open>p_\<close>, with \<^verbatim>\<open>p_n\<close> attached as \<^verbatim>\<open>int\<close> and \<^verbatim>\<open>n\<close> unknown,
  \<^verbatim>\<open>getVar<float>("n")\<close> ends in the message that names no stored type.
\<close>

theorem mismatched_request_counterexamples:
  "\<not> convertHackActive count_attached
   \<and> branchMap count_attached ''count'' = Some \<lparr>ptr = 100, deleter = 101, type = T_int\<rparr>
   \<and> T_int \<noteq> T_float
   \<and> getVar T_float ''count'' True (CHR ''x'') count_attached = (Return 100, count_attached)
   \<and> T_int \<noteq> T_pointer T_int
   \<and> getVar (T_pointer T_int) ''count'' False (CHR ''x'') count_attached
       = (Return 100, count_attached)
   \<and> \<not> convertHackActive prefix_only
   \<and> resolveName prefix_only ''n'' = ''p_n''
   \<and> branchMap prefix_only ''p_n'' = Some \<lparr>ptr = 100, deleter = 101, type = T_int\<rparr>
   \<and> getTupleObj T_float ''n'' branchMap False (CHR ''x'') prefix_only
       = (Throw (SATException (msg_not_found ''n'' T_float)), prefix_only)"
proof -
  have a: "branchMap count_attached (resolveName count_attached ''count'')
             = Some \<lparr>ptr = 100, deleter = 101, type = T_int\<rparr>"
    by (simp add: lookup_defs sample_defs count_attached_def register_defs)
  have f: "getVar T_float ''count'' True (CHR ''x'') count_attached = (Return 100, count_attached)"
    using a getTupleObj_forceLoad [where v_tuple = branchMap and s = count_attached
        and var = "''count''" and T = T_float and c = "CHR ''x''"]
    by (simp add: getVar_def catch_accessor_Return)
  have q: "getVar (T_pointer T_int) ''count'' False (CHR ''x'') count_attached
       = (Return 100, count_attached)"
    using a getTupleObj_exact [where v_tuple = branchMap and s = count_attached
        and var = "''count''" and T = "T_pointer T_int" and c = "CHR ''x''" and fl = False
        and h = "\<lparr>ptr = 100, deleter = 101, type = T_int\<rparr>"]
    by (simp add: getVar_def catch_accessor_Return)
  have n: "\<not> convertHackActive count_attached"
    "branchMap count_attached ''count'' = Some \<lparr>ptr = 100, deleter = 101, type = T_int\<rparr>"
    by (simp_all add: sample_defs count_attached_def register_defs)
  have r: "resolveName prefix_only ''n'' = ''p_n''"
    by (simp add: resolveName_def checkBranch_def prefix_only_def sample_defs register_defs)
  have m: "\<not> convertHackActive prefix_only"
    "branchMap prefix_only ''p_n'' = Some \<lparr>ptr = 100, deleter = 101, type = T_int\<rparr>"
    "typeMap prefix_only ''n'' = None"
    by (simp_all add: prefix_only_def sample_defs register_defs)
  have "getTupleObj T_float ''n'' branchMap False (CHR ''x'') prefix_only
       = (Throw (not_found T_float ''n'' prefix_only), prefix_only)"
    using r m
      getTupleObj_mismatch [where v_tuple = branchMap and s = prefix_only and var = "''n''"
        and T = T_float and c = "CHR ''x''"
        and h = "\<lparr>ptr = 100, deleter = 101, type = T_int\<rparr>"]
    by simp
  then have e: "getTupleObj T_float ''n'' branchMap False (CHR ''x'') prefix_only
       = (Throw (SATException (msg_not_found ''n'' T_float)), prefix_only)"
    using m by (simp add: not_found_def)
  from f q n r m e show ?thesis by simp
qed

section \<open>Destroying a handle\<close>

lemma destroy_null: "deleter h = 0 \<Longrightarrow> destroy h M = Return (h, M)"
  by (simp add: destroy_def)

lemma destroy_dangling:
  "deleter h \<noteq> 0 \<Longrightarrow> cells M (deleter h) = None \<Longrightarrow> destroy h M = Undefined"
  by (simp add: destroy_def)

lemma destroy_simple:
  "deleter h \<noteq> 0 \<Longrightarrow> cells M (deleter h) = Some SimpleDeleter \<Longrightarrow> cells M (ptr h) = Some x
     \<Longrightarrow> ptr h \<noteq> 0 \<Longrightarrow> ptr h \<noteq> deleter h
     \<Longrightarrow> destroy h M = Return (h, M\<lparr>cells := (cells M)(ptr h := None, deleter h := None)\<rparr>)"
  by (simp add: destroy_def deleter_destroy_def delete_object_def)

lemma destroy_vec_null:
  "deleter h \<noteq> 0 \<Longrightarrow> cells M (deleter h) = Some VecDeleter
     \<Longrightarrow> cells M (ptr h) = Some (Pointer 0) \<Longrightarrow> ptr h \<noteq> 0 \<Longrightarrow> ptr h \<noteq> deleter h
     \<Longrightarrow> destroy h M = Return (h, M\<lparr>cells := (cells M)(ptr h := None, deleter h := None)\<rparr>)"
  by (simp add: destroy_def deleter_destroy_def delete_object_def)

lemma destroy_vec_collection:
  "deleter h \<noteq> 0 \<Longrightarrow> cells M (deleter h) = Some VecDeleter
     \<Longrightarrow> cells M (ptr h) = Some (Pointer q) \<Longrightarrow> q \<noteq> 0
     \<Longrightarrow> destroy h M = Undefined"
  by (simp add: destroy_def deleter_destroy_def)

text \<open>
  Claim C7, as the header has it. \<^verbatim>\<open>destroy()\<close> does nothing when the \<^verbatim>\<open>deleter\<close>
  field is null. When the field is set and the deleter object and the storage are
  live, for a plain handle, and for a vector handle whose cell holds the null pointer,
  it calls the deleter, which frees the storage \<open>ptr h\<close>, and deletes the deleter
  object; the handle, its \<^verbatim>\<open>deleter\<close> field included, is left as it was. A second
  \<^verbatim>\<open>destroy()\<close> on the same handle therefore finds the field still set and calls
  through the deleted deleter: it is undefined, not a call that does nothing. (A vector
  handle whose cell points to a collection is no part of the statement: there the
  first call is undefined already, lemma \<open>destroy_vec_collection\<close>.)
\<close>

theorem destroy_keeps_callback:
  "(deleter h = 0 \<longrightarrow> destroy h M = Return (h, M))
   \<and> (deleter h \<noteq> 0 \<and> ptr h \<noteq> 0 \<and> ptr h \<noteq> deleter h \<and> cells M (ptr h) = Some x
        \<and> cells M (deleter h) = Some SimpleDeleter \<longrightarrow>
         destroy h M = Return (h, M\<lparr>cells := (cells M)(ptr h := None, deleter h := None)\<rparr>)
         \<and> destroy h (M\<lparr>cells := (cells M)(ptr h := None, deleter h := None)\<rparr>) = Undefined)
   \<and> (deleter h \<noteq> 0 \<and> ptr h \<noteq> 0 \<and> ptr h \<noteq> deleter h \<and> cells M (ptr h) = Some (Pointer 0)
        \<and> cells M (deleter h) = Some VecDeleter \<longrightarrow>
         destroy h M = Return (h, M\<lparr>cells := (cells M)(ptr h := None, deleter h := None)\<rparr>)
         \<and> destroy h (M\<lparr>cells := (cells M)(ptr h := None, deleter h := None)\<rparr>) = Undefined)"
  by (simp add: destroy_null destroy_simple destroy_vec_null destroy_dangling)

text \<open>
  The theorem at the sample sessions: a default handle, the handle of \<^verbatim>\<open>count\<close>, and
  the handle of the attached and still empty \<^verbatim>\<open>vals\<close>.
\<close>

theorem destroy_keeps_callback_witness:
  "destroy \<lparr>ptr = 0, deleter = 0, type = T_nullptr\<rparr> (heap count_attached)
     = Return (\<lparr>ptr = 0, deleter = 0, type = T_nullptr\<rparr>, heap count_attached)
   \<and> destroy count_handle (heap count_attached) = Return (count_handle, count_destroyed)
   \<and> destroy count_handle count_destroyed = Undefined
   \<and> destroy \<lparr>ptr = 100, deleter = 101, type = T_vector T_double\<rparr> (heap vals_attached)
       = Return (\<lparr>ptr = 100, deleter = 101, type = T_vector T_double\<rparr>,
           (heap vals_attached)\<lparr>cells := (cells (heap vals_attached))(100 := None, 101 := None)\<rparr>)
   \<and> destroy \<lparr>ptr = 100, deleter = 101, type = T_vector T_double\<rparr>
         ((heap vals_attached)\<lparr>cells := (cells (heap vals_attached))(100 := None, 101 := None)\<rparr>)
       = Undefined"
proof -
  have c: "cells (heap count_attached) 100 = Some Default
           \<and> cells (heap count_attached) 101 = Some SimpleDeleter"
    by (simp add: sample_defs count_attached_def register_defs)
  have v: "cells (heap vals_attached) 100 = Some (Pointer 0)
           \<and> cells (heap vals_attached) 101 = Some VecDeleter"
    by (simp add: vals_attached_def sample_defs register_defs)
  have "destroy \<lparr>ptr = 0, deleter = 0, type = T_nullptr\<rparr> (heap count_attached)
     = Return (\<lparr>ptr = 0, deleter = 0, type = T_nullptr\<rparr>, heap count_attached)"
    using destroy_keeps_callback [where h = "\<lparr>ptr = 0, deleter = 0, type = T_nullptr\<rparr>"
        and M = "heap count_attached"]
    by simp
  moreover have "destroy count_handle (heap count_attached) = Return (count_handle, count_destroyed)
     \<and> destroy count_handle count_destroyed = Undefined"
    using c destroy_keeps_callback [where h = count_handle and M = "heap count_attached"
        and x = Default]
    by (simp add: count_handle_def count_destroyed_def)
  moreover have "destroy \<lparr>ptr = 100, deleter = 101, type = T_vector T_double\<rparr> (heap vals_attached)
       = Return (\<lparr>ptr = 100, deleter = 101, type = T_vector T_double\<rparr>,
           (heap vals_attached)\<lparr>cells := (cells (heap vals_attached))(100 := None, 101 := None)\<rparr>)
     \<and> destroy \<lparr>ptr = 100, deleter = 101, type = T_vector T_double\<rparr>
         ((heap vals_attached)\<lparr>cells := (cells (heap vals_attached))(100 := None, 101 := None)\<rparr>)
       = Undefined"
    using v destroy_keeps_callback [where h = "\<lparr>ptr = 100, deleter = 101, type = T_vector T_double\<rparr>"
        and M = "heap vals_attached"]
    by simp
  ultimately show ?thesis by simp
qed

text \<open>
  Claim C7 as stated fails: after the first \<^verbatim>\<open>destroy()\<close> of the handle of \<^verbatim>\<open>count\<close>
  the handle still holds its deleter (address 101, now freed), and the second
  \<^verbatim>\<open>destroy()\<close> is not the call that leaves handle and store alone.
\<close>

theorem second_destroy_undefined:
  "destroy count_handle (heap count_attached) = Return (count_handle, count_destroyed)
   \<and> deleter count_handle = 101
   \<and> destroy count_handle count_destroyed = Undefined
   \<and> destroy count_handle count_destroyed \<noteq> Return (count_handle, count_destroyed)"
proof -
  have c: "cells (heap count_attached) 100 = Some Default
           \<and> cells (heap count_attached) 101 = Some SimpleDeleter"
    by (simp add: sample_defs count_attached_def register_defs)
  have "destroy count_handle (heap count_attached) = Return (count_handle, count_destroyed)"
    using c destroy_simple [where h = count_handle and M = "heap count_attached" and x = Default]
    by (simp add: count_handle_def count_destroyed_def)
  moreover have "destroy count_handle count_destroyed = Undefined"
    using destroy_dangling [where h = count_handle and M = count_destroyed]
    by (simp add: count_handle_def count_destroyed_def)
  ultimately show ?thesis by (simp add: count_handle_def)
qed

section \<open>A derived registration under a known name\<close>

lemma registerDerivedVar_known_unattached:
  "typeMap s name = Some t \<Longrightarrow> branchMap s name = None \<Longrightarrow>
     registerDerivedVar T name v s =
       ((if reThrow s then Throw (SATException (msg_redefine name)) else Return ()),
        s\<lparr>printed := printed s @ [SATException (msg_redefine name)]\<rparr>)"
  by (simp add: registerDerivedVar_def try_registerDerivedVar_def catch_register_def Let_def)

lemma registerDerivedVec_known_unattached:
  "typeMap s name = Some t \<Longrightarrow> branchVecMap s name = None \<Longrightarrow>
     registerDerivedVec T name p s =
       ((if reThrow s then Throw (SATException (msg_redefine name)) else Return ()),
        s\<lparr>printed := printed s @ [SATException (msg_redefine name)]\<rparr>)"
  by (simp add: registerDerivedVec_def try_registerDerivedVec_def catch_register_def Let_def)

text \<open>
  Claim C3 at the input where the header departs from it. \<^verbatim>\<open>count\<close> is a column of
  the schema, attached by \<^verbatim>\<open>registerBranch<int>\<close>; \<^verbatim>\<open>registerDerivedVar<int>("count", 5)\<close>
  finds it in \<^verbatim>\<open>branchMap_\<close>, skips the test of the type map, prints and throws
  nothing, and writes 5 into the storage of the branch. In the same way
  \<^verbatim>\<open>registerDerivedVec\<close> replaces the pointer held by the attached branch \<^verbatim>\<open>vals\<close>.
  (Under a known name that is not attached in the map of the call, the two lemmas
  above show the rejection the claim describes.)
\<close>

theorem registerDerived_overwrites_attached_column:
  "typeMap count_attached ''count'' = Some ''int''
   \<and> branchMap count_attached ''count'' = Some count_handle
   \<and> cells (heap count_attached) 100 = Some Default
   \<and> fst (registerDerivedVar T_int ''count'' 5 count_attached) = Return ()
   \<and> printed (snd (registerDerivedVar T_int ''count'' 5 count_attached)) = []
   \<and> cells (heap (snd (registerDerivedVar T_int ''count'' 5 count_attached))) 100 = Some (Value 5)
   \<and> typeMap vals_attached ''vals'' = Some ''std::vector<double, std::allocator<double> >''
   \<and> branchVecMap vals_attached ''vals''
        = Some \<lparr>ptr = 100, deleter = 101, type = T_vector T_double\<rparr>
   \<and> cells (heap vals_attached) 100 = Some (Pointer 0)
   \<and> fst (registerDerivedVec (T_vector T_double) ''vals'' 55 vals_attached) = Return ()
   \<and> printed (snd (registerDerivedVec (T_vector T_double) ''vals'' 55 vals_attached)) = []
   \<and> cells (heap (snd (registerDerivedVec (T_vector T_double) ''vals'' 55 vals_attached))) 100
        = Some (Pointer 55)"
  by (simp add: vals_attached_def count_handle_def sample_defs count_attached_def register_defs)

section \<open>The conversion hack\<close>

lemma select_typen_table:
  "select_typen (T_vector T_float) (T_vector T_double) c = CHR ''f''
   \<and> select_typen (T_vector T_double) (T_vector T_float) c = CHR ''d''
   \<and> select_typen (T_vector T_int) (T_vector T_uint) c = CHR ''i''
   \<and> select_typen (T_vector T_int) (T_vector T_float) c = CHR ''a''"
  by (simp add: select_typen_def)

lemma getTupleObj_vector_shadow:
  "convertHackActive s \<Longrightarrow> v_tuple s (resolveName s var) = Some h
     \<Longrightarrow> type h \<noteq> remove_pointer T
     \<Longrightarrow> branchVecMap s (resolveName s var @ ''___''
              @ [select_typen (remove_pointer T) (type h) c]) = Some h1
     \<Longrightarrow> getTupleObj T var v_tuple False c s = (Return (ptr h1), s)"
  by (simp add: getTupleObj_def Let_def)

lemma getTupleObj_scalar_shadow:
  "convertHackActive s \<Longrightarrow> v_tuple s (resolveName s var) = Some h
     \<Longrightarrow> type h \<noteq> remove_pointer T
     \<Longrightarrow> branchVecMap s (resolveName s var @ ''___''
              @ [select_typen (remove_pointer T) (type h) c]) = None
     \<Longrightarrow> typeMap s (resolveName s var) = Some t
     \<Longrightarrow> getTupleObj T var v_tuple False c s =
           (case branchMap s (resolveName s var @ ''___d'') of
              Some h2 \<Rightarrow> (Return (ptr h2), s)
            | None \<Rightarrow>
                (case branchMap s (resolveName s var @ ''___f'') of
                   Some h3 \<Rightarrow> (Return (ptr h3), s)
                 | None \<Rightarrow>
                     (case branchMap s (resolveName s var @ ''___i'') of
                        Some h4 \<Rightarrow> (Return (ptr h4), s)
                      | None \<Rightarrow> (Throw (not_found T var s), s))))"
  by (simp add: getTupleObj_def getType_def Let_def)

text \<open>
  Claim C4, as the header has it. With the conversion hack enabled and the boolean
  flag false, a request whose resolved name is attached in the map searched under
  a tag other than \<^verbatim>\<open>std::remove_pointer<T>::type\<close> of the requested type \<open>T\<close> first
  forms the shadow name \<open>resolvedName @ ''___'' @ [typen]\<close>, where \<open>typen\<close> is \<open>f\<close>, \<open>d\<close>, \<open>i\<close>, \<open>a\<close> for the four listed pairs of vector types (and
  whatever the uninitialised variable holds for any other pair), and looks it up in
  the vector-column map; a hit is returned. Only when that lookup misses (and the type
  map knows the resolved name) is the scalar-column map probed under the suffixes
  \<open>d\<close>, then \<open>f\<close>, then \<open>i\<close>, the first hit returned; when all miss the call ends in
  the "Variable not found" exception. Both steps run for requests through either map.
\<close>

theorem conversion_probe_order:
  "convertHackActive s \<Longrightarrow> v_tuple s (resolveName s var) = Some h
     \<Longrightarrow> type h \<noteq> remove_pointer T \<Longrightarrow>
     select_typen (T_vector T_float) (T_vector T_double) c = CHR ''f''
     \<and> select_typen (T_vector T_double) (T_vector T_float) c = CHR ''d''
     \<and> select_typen (T_vector T_int) (T_vector T_uint) c = CHR ''i''
     \<and> select_typen (T_vector T_int) (T_vector T_float) c = CHR ''a''
     \<and> (branchVecMap s (resolveName s var @ ''___''
              @ [select_typen (remove_pointer T) (type h) c]) = Some h1 \<longrightarrow>
           getTupleObj T var v_tuple False c s = (Return (ptr h1), s))
     \<and> (branchVecMap s (resolveName s var @ ''___''
              @ [select_typen (remove_pointer T) (type h) c]) = None
          \<and> typeMap s (resolveName s var) = Some t \<longrightarrow>
           (branchMap s (resolveName s var @ ''___d'') = Some h2 \<longrightarrow>
              getTupleObj T var v_tuple False c s = (Return (ptr h2), s))
           \<and> (branchMap s (resolveName s var @ ''___d'') = None
                \<and> branchMap s (resolveName s var @ ''___f'') = Some h3 \<longrightarrow>
              getTupleObj T var v_tuple False c s = (Return (ptr h3), s))
           \<and> (branchMap s (resolveName s var @ ''___d'') = None
                \<and> branchMap s (resolveName s var @ ''___f'') = None
                \<and> branchMap s (resolveName s var @ ''___i'') = Some h4 \<longrightarrow>
              getTupleObj T var v_tuple False c s = (Return (ptr h4), s))
           \<and> (branchMap s (resolveName s var @ ''___d'') = None
                \<and> branchMap s (resolveName s var @ ''___f'') = None
                \<and> branchMap s (resolveName s var @ ''___i'') = None \<longrightarrow>
              getTupleObj T var v_tuple False c s = (Throw (not_found T var s), s)))"
  by (simp add: select_typen_table getTupleObj_vector_shadow getTupleObj_scalar_shadow)


text \<open>
  The theorem at the sample sessions. In \<open>shadow_reader\<close> the vector \<^verbatim>\<open>vals\<close>
  (\<^verbatim>\<open>vector<double>\<close>) has the vector shadow \<^verbatim>\<open>vals___f\<close>, the scalar \<^verbatim>\<open>count\<close>
  (\<^verbatim>\<open>int\<close>) the scalar shadow \<^verbatim>\<open>count___i\<close> and the scalar \<^verbatim>\<open>met\<close> (\<^verbatim>\<open>double\<close>) the
  scalar shadow \<^verbatim>\<open>met___f\<close>; in \<open>w_reader\<close> the scalar shadow \<^verbatim>\<open>w___d\<close> is found once
  the vector lookup under \<^verbatim>\<open>w___x\<close> has missed; in \<open>hack_on\<close> with \<^verbatim>\<open>count\<close> attached
  nothing is found.
\<close>

theorem conversion_probe_order_witness:
  "getTupleObj (T_pointer (T_vector T_float)) ''vals'' branchVecMap False (CHR ''x'') shadow_reader
     = (Return 105, shadow_reader)
   \<and> getTupleObj T_float ''count'' branchMap False (CHR ''x'') shadow_reader
     = (Return 107, shadow_reader)
   \<and> getTupleObj T_float ''met'' branchMap False (CHR ''x'') shadow_reader
     = (Return 111, shadow_reader)
   \<and> getTupleObj T_float ''w'' branchMap False (CHR ''x'') w_reader = (Return 103, w_reader)
   \<and> getTupleObj T_float ''count'' branchMap False (CHR ''x'') (registerBranch T_int ''count'' hack_on)
     = (Throw (SATException (msg_not_found_typed ''count'' T_float ''int'')),
        registerBranch T_int ''count'' hack_on)"
proof -
  have hack: "convertHackActive shadow_reader" "convertHackActive w_reader"
    "convertHackActive (registerBranch T_int ''count'' hack_on)"
    by (simp_all add: hack_on_def shadow_reader_def w_reader_def sample_defs register_defs)
  have names: "resolveName shadow_reader ''vals'' = ''vals''"
    "resolveName shadow_reader ''count'' = ''count''"
    "resolveName shadow_reader ''met'' = ''met''"
    "resolveName w_reader ''w'' = ''w''"
    "resolveName (registerBranch T_int ''count'' hack_on) ''count'' = ''count''"
    by (simp_all add: resolveName_def checkBranch_def hack_on_def shadow_reader_def w_reader_def sample_defs register_defs)
  have vals: "branchVecMap shadow_reader ''vals''
                = Some \<lparr>ptr = 101, deleter = 102, type = T_vector T_double\<rparr>"
    "branchVecMap shadow_reader ''vals___f''
                = Some \<lparr>ptr = 105, deleter = 106, type = T_vector T_float\<rparr>"
    by (simp_all add: hack_on_def shadow_reader_def w_reader_def sample_defs register_defs)
  have count: "branchMap shadow_reader ''count'' = Some \<lparr>ptr = 103, deleter = 104, type = T_int\<rparr>"
    "branchVecMap shadow_reader ''count___x'' = None"
    "typeMap shadow_reader ''count'' = Some ''int''"
    "branchMap shadow_reader ''count___d'' = None"
    "branchMap shadow_reader ''count___f'' = None"
    "branchMap shadow_reader ''count___i'' = Some \<lparr>ptr = 107, deleter = 108, type = T_float\<rparr>"
    by (simp_all add: hack_on_def shadow_reader_def w_reader_def sample_defs register_defs)
  have met: "branchMap shadow_reader ''met'' = Some \<lparr>ptr = 109, deleter = 110, type = T_double\<rparr>"
    "branchVecMap shadow_reader ''met___x'' = None"
    "typeMap shadow_reader ''met'' = Some ''double''"
    "branchMap shadow_reader ''met___d'' = None"
    "branchMap shadow_reader ''met___f'' = Some \<lparr>ptr = 111, deleter = 112, type = T_float\<rparr>"
    by (simp_all add: hack_on_def shadow_reader_def w_reader_def sample_defs register_defs)
  have w: "branchMap w_reader ''w'' = Some \<lparr>ptr = 101, deleter = 102, type = T_vector T_double\<rparr>"
    "branchVecMap w_reader ''w___x'' = None"
    "typeMap w_reader ''w'' = Some ''std::vector<double, std::allocator<double> >''"
    "branchMap w_reader ''w___d'' = Some \<lparr>ptr = 103, deleter = 104, type = T_double\<rparr>"
    by (simp_all add: hack_on_def shadow_reader_def w_reader_def sample_defs register_defs)
  have bare: "branchMap (registerBranch T_int ''count'' hack_on) ''count''
                = Some \<lparr>ptr = 101, deleter = 102, type = T_int\<rparr>"
    "branchVecMap (registerBranch T_int ''count'' hack_on) ''count___x'' = None"
    "typeMap (registerBranch T_int ''count'' hack_on) ''count'' = Some ''int''"
    "branchMap (registerBranch T_int ''count'' hack_on) ''count___d'' = None"
    "branchMap (registerBranch T_int ''count'' hack_on) ''count___f'' = None"
    "branchMap (registerBranch T_int ''count'' hack_on) ''count___i'' = None"
    by (simp_all add: hack_on_def shadow_reader_def w_reader_def sample_defs register_defs)
  have "getTupleObj (T_pointer (T_vector T_float)) ''vals'' branchVecMap False (CHR ''x'')
          shadow_reader = (Return 105, shadow_reader)"
    using hack names vals
      conversion_probe_order [where s = shadow_reader and var = "''vals''" and v_tuple = branchVecMap
        and T = "T_pointer (T_vector T_float)" and c = "CHR ''x''"
        and h = "\<lparr>ptr = 101, deleter = 102, type = T_vector T_double\<rparr>"
        and ?h1.0 = "\<lparr>ptr = 105, deleter = 106, type = T_vector T_float\<rparr>"]
    by (simp add: select_typen_def)
  moreover have "getTupleObj T_float ''count'' branchMap False (CHR ''x'') shadow_reader
     = (Return 107, shadow_reader)"
    using hack names count
      conversion_probe_order [where s = shadow_reader and var = "''count''" and v_tuple = branchMap
        and T = T_float and c = "CHR ''x''" and t = "''int''"
        and h = "\<lparr>ptr = 103, deleter = 104, type = T_int\<rparr>"
        and ?h4.0 = "\<lparr>ptr = 107, deleter = 108, type = T_float\<rparr>"]
    by (simp add: select_typen_def)
  moreover have "getTupleObj T_float ''met'' branchMap False (CHR ''x'') shadow_reader
     = (Return 111, shadow_reader)"
    using hack names met
      conversion_probe_order [where s = shadow_reader and var = "''met''" and v_tuple = branchMap
        and T = T_float and c = "CHR ''x''" and t = "''double''"
        and h = "\<lparr>ptr = 109, deleter = 110, type = T_double\<rparr>"
        and ?h3.0 = "\<lparr>ptr = 111, deleter = 112, type = T_float\<rparr>"]
    by (simp add: select_typen_def)
  moreover have "getTupleObj T_float ''w'' branchMap False (CHR ''x'') w_reader
     = (Return 103, w_reader)"
    using hack names w
      conversion_probe_order [where s = w_reader and var = "''w''" and v_tuple = branchMap
        and T = T_float and c = "CHR ''x''"
        and t = "''std::vector<double, std::allocator<double> >''"
        and h = "\<lparr>ptr = 101, deleter = 102, type = T_vector T_double\<rparr>"
        and ?h2.0 = "\<lparr>ptr = 103, deleter = 104, type = T_double\<rparr>"]
    by (simp add: select_typen_def)
  moreover have "getTupleObj T_float ''count'' branchMap False (CHR ''x'')
       (registerBranch T_int ''count'' hack_on)
     = (Throw (SATException (msg_not_found_typed ''count'' T_float ''int'')),
        registerBranch T_int ''count'' hack_on)"
    using hack names bare
      conversion_probe_order [where s = "registerBranch T_int ''count'' hack_on"
        and var = "''count''" and v_tuple = branchMap
        and T = T_float and c = "CHR ''x''" and t = "''int''"
        and h = "\<lparr>ptr = 101, deleter = 102, type = T_int\<rparr>"]
    by (simp add: select_typen_def not_found_def)
  ultimately show ?thesis by simp
qed

text \<open>
  Claim C4 as stated fails for a scalar column: \<^verbatim>\<open>w\<close> sits in the scalar-column map
  (tag \<^verbatim>\<open>vector<double>\<close>) and has the scalar shadow \<^verbatim>\<open>w___d\<close>, the first hit of the
  probe \<open>d\<close>, \<open>f\<close>, \<open>i\<close>. \<^verbatim>\<open>getVar<std::vector<float>>("w")\<close> does not return it: the
  lookup of \<^verbatim>\<open>w___f\<close> in the vector-column map comes first and its hit is returned.
  It fails as well for a request that differs from the tag by one pointer level: with
  the hack enabled, \<^verbatim>\<open>getVar<int*>("count")\<close> on the column attached as \<^verbatim>\<open>int\<close> returns
  the storage of the column and looks no shadow up.
\<close>

theorem conversion_probe_counterexamples:
  "convertHackActive w_reader
   \<and> branchMap w_reader ''w'' = Some \<lparr>ptr = 101, deleter = 102, type = T_vector T_double\<rparr>
   \<and> branchMap w_reader ''w___d'' = Some \<lparr>ptr = 103, deleter = 104, type = T_double\<rparr>
   \<and> branchVecMap w_reader ''w___f'' = Some \<lparr>ptr = 105, deleter = 106, type = T_vector T_float\<rparr>
   \<and> getVar (T_vector T_float) ''w'' False (CHR ''x'') w_reader = (Return 105, w_reader)
   \<and> convertHackActive (registerBranch T_int ''count'' hack_on)
   \<and> branchMap (registerBranch T_int ''count'' hack_on) ''count''
       = Some \<lparr>ptr = 101, deleter = 102, type = T_int\<rparr>
   \<and> T_int \<noteq> T_pointer T_int
   \<and> getVar (T_pointer T_int) ''count'' False (CHR ''x'') (registerBranch T_int ''count'' hack_on)
       = (Return 101, registerBranch T_int ''count'' hack_on)"
proof -
  have hack: "convertHackActive w_reader"
    by (simp add: hack_on_def w_reader_def sample_defs register_defs)
  have name: "resolveName w_reader ''w'' = ''w''"
    by (simp add: resolveName_def checkBranch_def hack_on_def w_reader_def sample_defs
        register_defs)
  have w: "branchMap w_reader ''w'' = Some \<lparr>ptr = 101, deleter = 102, type = T_vector T_double\<rparr>"
    "branchMap w_reader ''w___d'' = Some \<lparr>ptr = 103, deleter = 104, type = T_double\<rparr>"
    "branchVecMap w_reader ''w___f'' = Some \<lparr>ptr = 105, deleter = 106, type = T_vector T_float\<rparr>"
    by (simp_all add: hack_on_def w_reader_def sample_defs register_defs)
  have "getTupleObj (T_vector T_float) ''w'' branchMap False (CHR ''x'') w_reader
          = (Return 105, w_reader)"
    using hack name w
      getTupleObj_vector_shadow [where s = w_reader and var = "''w''" and v_tuple = branchMap
        and T = "T_vector T_float" and c = "CHR ''x''"
        and h = "\<lparr>ptr = 101, deleter = 102, type = T_vector T_double\<rparr>"
        and ?h1.0 = "\<lparr>ptr = 105, deleter = 106, type = T_vector T_float\<rparr>"]
    by (simp add: select_typen_def)
  then have v: "getVar (T_vector T_float) ''w'' False (CHR ''x'') w_reader = (Return 105, w_reader)"
    by (simp add: getVar_def catch_accessor_def)
  have c: "convertHackActive (registerBranch T_int ''count'' hack_on)"
    "branchMap (registerBranch T_int ''count'' hack_on) ''count''
       = Some \<lparr>ptr = 101, deleter = 102, type = T_int\<rparr>"
    "resolveName (registerBranch T_int ''count'' hack_on) ''count'' = ''count''"
    by (simp_all add: resolveName_def checkBranch_def hack_on_def sample_defs register_defs)
  have "getTupleObj (T_pointer T_int) ''count'' branchMap False (CHR ''x'')
          (registerBranch T_int ''count'' hack_on)
          = (Return 101, registerBranch T_int ''count'' hack_on)"
    using c
      getTupleObj_exact [where v_tuple = branchMap and s = "registerBranch T_int ''count'' hack_on"
        and var = "''count''" and T = "T_pointer T_int" and c = "CHR ''x''" and fl = False
        and h = "\<lparr>ptr = 101, deleter = 102, type = T_int\<rparr>"]
    by simp
  then have q: "getVar (T_pointer T_int) ''count'' False (CHR ''x'')
          (registerBranch T_int ''count'' hack_on)
          = (Return 101, registerBranch T_int ''count'' hack_on)"
    by (simp add: getVar_def catch_accessor_def)
  from hack w v c q show ?thesis by simp
qed

section \<open>Attachment on demand\<close>

lemma registerBranch_TBranch_scalar:
  "\<not> is_vector D \<Longrightarrow> registerBranch_TBranch (name, D) s = registerBranch D name s"
  by (cases D) (simp_all add: registerBranch_TBranch_def)

lemma registerBranch_TBranch_vector:
  "registerBranch_TBranch (name, T_vector E) s = registerVecBranch E name s"
  by (simp add: registerBranch_TBranch_def)

lemma getTupleObj_no_branch:
  "typeMap s (resolveName s var) \<noteq> None \<Longrightarrow> v_tuple s (resolveName s var) = None
     \<Longrightarrow> branches (tree s) (resolveName s var) = None
     \<Longrightarrow> getTupleObj T var v_tuple fl c s = (Throw (not_found T var s), s)"
  by (auto simp add: getTupleObj_def Let_def FindBranch_def)

lemma getTupleObj_attach:
  "typeMap s (resolveName s var) \<noteq> None \<Longrightarrow> v_tuple s (resolveName s var) = None
     \<Longrightarrow> branches (tree s) (resolveName s var) = Some D
     \<Longrightarrow> s1 = registerBranch_TBranch (resolveName s var, D) s
     \<Longrightarrow> v_tuple s1 (resolveName s var) = Some h
     \<Longrightarrow> type h = remove_pointer T
     \<Longrightarrow> minus_int (nevt s1) 1 = Return entry
     \<Longrightarrow> getTupleObj T var v_tuple fl c s =
           (Return (ptr h),
            s1\<lparr>heap := GetEvent (tree s1) (resolveName s var, D) entry (heap s1)\<rparr>)"
  by (auto simp add: getTupleObj_def Let_def FindBranch_def)

lemma getTupleObj_attach_elsewhere:
  "typeMap s (resolveName s var) \<noteq> None \<Longrightarrow> v_tuple s (resolveName s var) = None
     \<Longrightarrow> branches (tree s) (resolveName s var) = Some D
     \<Longrightarrow> v_tuple (registerBranch_TBranch (resolveName s var, D) s) (resolveName s var) = None
     \<Longrightarrow> fst (getTupleObj T var v_tuple fl c s) = Undefined"
  by (auto simp add: getTupleObj_def Let_def FindBranch_def split: result.splits)


lemma registerBranch_facts:
  assumes "branches (tree s) name = Some D" and "s1 = registerBranch D name s"
  shows "branchMap s1 name = Some \<lparr>ptr = brk (heap s), deleter = brk (heap s) + 1, type = D\<rparr>"
    and "status (tree s1) name"
    and "address (tree s1) name = Some (brk (heap s))"
    and "deliver (tree s1) = deliver (tree s)"
    and "nevt s1 = nevt s"
    and "heap s1 = (heap s)\<lparr>cells := (cells (heap s))(brk (heap s) \<mapsto> Default,
                     brk (heap s) + 1 \<mapsto> SimpleDeleter), brk := brk (heap s) + 2\<rparr>"
  using assms
  by (simp_all add: registerBranch_def new_object_def createHandle_def SetBranchAddress_def
      SetBranchStatus_def)

lemma registerVecBranch_facts:
  assumes "branches (tree s) name = Some D" and "s1 = registerVecBranch E name s"
  shows "branchVecMap s1 name
           = Some \<lparr>ptr = brk (heap s), deleter = brk (heap s) + 1, type = T_vector E\<rparr>"
    and "status (tree s1) name"
    and "address (tree s1) name = Some (brk (heap s))"
    and "deliver (tree s1) = deliver (tree s)"
    and "nevt s1 = nevt s"
    and "heap s1 = (heap s)\<lparr>cells := (cells (heap s))(brk (heap s) \<mapsto> Pointer 0,
                     brk (heap s) + 1 \<mapsto> VecDeleter), brk := brk (heap s) + 2\<rparr>"
  using assms
  by (simp_all add: registerVecBranch_def new_object_def createVecHandle_def SetBranchAddress_def
      SetBranchStatus_def)

lemma getTupleObj_attach_scalar:
  assumes known: "typeMap s (resolveName s var) \<noteq> None"
    and un: "branchMap s (resolveName s var) = None"
    and br: "branches (tree s) (resolveName s var) = Some D"
    and sc: "\<not> is_vector D" and ty: "remove_pointer T = D"
    and lo: "INT_MIN < nevt s" and hi: "nevt s \<le> INT_MAX"
  shows "getTupleObj T var branchMap fl c s =
           (Return (brk (heap s)),
            (registerBranch D (resolveName s var) s)\<lparr>heap :=
               deliver (tree s) (resolveName s var) (nevt s - 1) (brk (heap s))
                 ((heap s)\<lparr>cells := (cells (heap s))(brk (heap s) \<mapsto> Default,
                     brk (heap s) + 1 \<mapsto> SimpleDeleter), brk := brk (heap s) + 2\<rparr>)\<rparr>)"
proof -
  define s1 where "s1 = registerBranch D (resolveName s var) s"
  note f = registerBranch_facts [OF br s1_def]
  have r: "s1 = registerBranch_TBranch (resolveName s var, D) s"
    using sc by (simp add: s1_def registerBranch_TBranch_scalar)
  have t: "type \<lparr>ptr = brk (heap s), deleter = brk (heap s) + 1, type = D\<rparr> = remove_pointer T"
    using ty by simp
  have g: "GetEvent (tree s1) (resolveName s var, D) (nevt s - 1) (heap s1)
             = deliver (tree s) (resolveName s var) (nevt s - 1) (brk (heap s))
                 ((heap s)\<lparr>cells := (cells (heap s))(brk (heap s) \<mapsto> Default,
                     brk (heap s) + 1 \<mapsto> SimpleDeleter), brk := brk (heap s) + 2\<rparr>)"
    using f by (simp add: GetEvent_def)
  have e: "minus_int (nevt s1) 1 = Return (nevt s - 1)"
    using f(5) lo hi by (simp add: minus_int_def)
  have "getTupleObj T var branchMap fl c s =
           (Return (ptr \<lparr>ptr = brk (heap s), deleter = brk (heap s) + 1, type = D\<rparr>),
            s1\<lparr>heap := GetEvent (tree s1) (resolveName s var, D) (nevt s - 1) (heap s1)\<rparr>)"
    by (rule getTupleObj_attach [where v_tuple = branchMap, OF known un br r f(1) t e])
  then have "getTupleObj T var branchMap fl c s =
           (Return (brk (heap s)),
            s1\<lparr>heap := deliver (tree s) (resolveName s var) (nevt s - 1) (brk (heap s))
                 ((heap s)\<lparr>cells := (cells (heap s))(brk (heap s) \<mapsto> Default,
                     brk (heap s) + 1 \<mapsto> SimpleDeleter), brk := brk (heap s) + 2\<rparr>)\<rparr>)"
    unfolding g by simp
  then show ?thesis unfolding s1_def .
qed

lemma getTupleObj_attach_vector:
  assumes known: "typeMap s (resolveName s var) \<noteq> None"
    and un: "branchVecMap s (resolveName s var) = None"
    and br: "branches (tree s) (resolveName s var) = Some (T_vector E)"
    and ty: "remove_pointer T = T_vector E"
    and lo: "INT_MIN < nevt s" and hi: "nevt s \<le> INT_MAX"
  shows "getTupleObj T var branchVecMap fl c s =
           (Return (brk (heap s)),
            (registerVecBranch E (resolveName s var) s)\<lparr>heap :=
               deliver (tree s) (resolveName s var) (nevt s - 1) (brk (heap s))
                 ((heap s)\<lparr>cells := (cells (heap s))(brk (heap s) \<mapsto> Pointer 0,
                     brk (heap s) + 1 \<mapsto> VecDeleter), brk := brk (heap s) + 2\<rparr>)\<rparr>)"
proof -
  define s1 where "s1 = registerVecBranch E (resolveName s var) s"
  note f = registerVecBranch_facts [OF br s1_def]
  have r: "s1 = registerBranch_TBranch (resolveName s var, T_vector E) s"
    by (simp add: s1_def registerBranch_TBranch_vector)
  have t: "type \<lparr>ptr = brk (heap s), deleter = brk (heap s) + 1, type = T_vector E\<rparr>
             = remove_pointer T"
    using ty by simp
  have g: "GetEvent (tree s1) (resolveName s var, T_vector E) (nevt s - 1) (heap s1)
             = deliver (tree s) (resolveName s var) (nevt s - 1) (brk (heap s))
                 ((heap s)\<lparr>cells := (cells (heap s))(brk (heap s) \<mapsto> Pointer 0,
                     brk (heap s) + 1 \<mapsto> VecDeleter), brk := brk (heap s) + 2\<rparr>)"
    using f by (simp add: GetEvent_def)
  have e: "minus_int (nevt s1) 1 = Return (nevt s - 1)"
    using f(5) lo hi by (simp add: minus_int_def)
  have "getTupleObj T var branchVecMap fl c s =
           (Return (ptr \<lparr>ptr = brk (heap s), deleter = brk (heap s) + 1, type = T_vector E\<rparr>),
            s1\<lparr>heap := GetEvent (tree s1) (resolveName s var, T_vector E) (nevt s - 1) (heap s1)\<rparr>)"
    by (rule getTupleObj_attach [where v_tuple = branchVecMap, OF known un br r f(1) t e])
  then have "getTupleObj T var branchVecMap fl c s =
           (Return (brk (heap s)),
            s1\<lparr>heap := deliver (tree s) (resolveName s var) (nevt s - 1) (brk (heap s))
                 ((heap s)\<lparr>cells := (cells (heap s))(brk (heap s) \<mapsto> Pointer 0,
                     brk (heap s) + 1 \<mapsto> VecDeleter), brk := brk (heap s) + 2\<rparr>)\<rparr>)"
    unfolding g by simp
  then show ?thesis unfolding s1_def .
qed


lemma not_found_heap: "not_found T var (s\<lparr>heap := M\<rparr>) = not_found T var s"
  by (simp add: not_found_def)

lemma getTupleObj_attach_mismatch:
  "typeMap s (resolveName s var) \<noteq> None \<Longrightarrow> v_tuple s (resolveName s var) = None
     \<Longrightarrow> branches (tree s) (resolveName s var) = Some D
     \<Longrightarrow> s1 = registerBranch_TBranch (resolveName s var, D) s
     \<Longrightarrow> v_tuple s1 (resolveName s var) = Some h
     \<Longrightarrow> type h \<noteq> remove_pointer T
     \<Longrightarrow> minus_int (nevt s1) 1 = Return entry
     \<Longrightarrow> getTupleObj T var v_tuple fl c s =
           (Throw (not_found T var s1),
            s1\<lparr>heap := GetEvent (tree s1) (resolveName s var, D) entry (heap s1)\<rparr>)"
  by (auto simp add: getTupleObj_def Let_def FindBranch_def not_found_heap)

lemma getTupleObj_mismatch_scalar:
  assumes known: "typeMap s (resolveName s var) \<noteq> None"
    and un: "branchMap s (resolveName s var) = None"
    and br: "branches (tree s) (resolveName s var) = Some D"
    and sc: "\<not> is_vector D" and ty: "remove_pointer T \<noteq> D"
    and lo: "INT_MIN < nevt s" and hi: "nevt s \<le> INT_MAX"
  shows "getTupleObj T var branchMap fl c s =
           (Throw (not_found T var (registerBranch D (resolveName s var) s)),
            (registerBranch D (resolveName s var) s)\<lparr>heap :=
               deliver (tree s) (resolveName s var) (nevt s - 1) (brk (heap s))
                 ((heap s)\<lparr>cells := (cells (heap s))(brk (heap s) \<mapsto> Default,
                     brk (heap s) + 1 \<mapsto> SimpleDeleter), brk := brk (heap s) + 2\<rparr>)\<rparr>)"
proof -
  define s1 where "s1 = registerBranch D (resolveName s var) s"
  note f = registerBranch_facts [OF br s1_def]
  have r: "s1 = registerBranch_TBranch (resolveName s var, D) s"
    using sc by (simp add: s1_def registerBranch_TBranch_scalar)
  have t: "type \<lparr>ptr = brk (heap s), deleter = brk (heap s) + 1, type = D\<rparr> \<noteq> remove_pointer T"
    using ty by auto
  have g: "GetEvent (tree s1) (resolveName s var, D) (nevt s - 1) (heap s1)
             = deliver (tree s) (resolveName s var) (nevt s - 1) (brk (heap s))
                 ((heap s)\<lparr>cells := (cells (heap s))(brk (heap s) \<mapsto> Default,
                     brk (heap s) + 1 \<mapsto> SimpleDeleter), brk := brk (heap s) + 2\<rparr>)"
    using f by (simp add: GetEvent_def)
  have e: "minus_int (nevt s1) 1 = Return (nevt s - 1)"
    using f(5) lo hi by (simp add: minus_int_def)
  have "getTupleObj T var branchMap fl c s =
           (Throw (not_found T var s1),
            s1\<lparr>heap := GetEvent (tree s1) (resolveName s var, D) (nevt s - 1) (heap s1)\<rparr>)"
    by (rule getTupleObj_attach_mismatch [where v_tuple = branchMap, OF known un br r f(1) t e])
  then have "getTupleObj T var branchMap fl c s =
           (Throw (not_found T var s1),
            s1\<lparr>heap := deliver (tree s) (resolveName s var) (nevt s - 1) (brk (heap s))
                 ((heap s)\<lparr>cells := (cells (heap s))(brk (heap s) \<mapsto> Default,
                     brk (heap s) + 1 \<mapsto> SimpleDeleter), brk := brk (heap s) + 2\<rparr>)\<rparr>)"
    unfolding g by simp
  then show ?thesis unfolding s1_def .
qed

lemma getTupleObj_mismatch_vector:
  assumes known: "typeMap s (resolveName s var) \<noteq> None"
    and un: "branchVecMap s (resolveName s var) = None"
    and br: "branches (tree s) (resolveName s var) = Some (T_vector E)"
    and ty: "remove_pointer T \<noteq> T_vector E"
    and lo: "INT_MIN < nevt s" and hi: "nevt s \<le> INT_MAX"
  shows "getTupleObj T var branchVecMap fl c s =
           (Throw (not_found T var (registerVecBranch E (resolveName s var) s)),
            (registerVecBranch E (resolveName s var) s)\<lparr>heap :=
               deliver (tree s) (resolveName s var) (nevt s - 1) (brk (heap s))
                 ((heap s)\<lparr>cells := (cells (heap s))(brk (heap s) \<mapsto> Pointer 0,
                     brk (heap s) + 1 \<mapsto> VecDeleter), brk := brk (heap s) + 2\<rparr>)\<rparr>)"
proof -
  define s1 where "s1 = registerVecBranch E (resolveName s var) s"
  note f = registerVecBranch_facts [OF br s1_def]
  have r: "s1 = registerBranch_TBranch (resolveName s var, T_vector E) s"
    by (simp add: s1_def registerBranch_TBranch_vector)
  have t: "type \<lparr>ptr = brk (heap s), deleter = brk (heap s) + 1, type = T_vector E\<rparr>
             \<noteq> remove_pointer T"
    using ty by auto
  have g: "GetEvent (tree s1) (resolveName s var, T_vector E) (nevt s - 1) (heap s1)
             = deliver (tree s) (resolveName s var) (nevt s - 1) (brk (heap s))
                 ((heap s)\<lparr>cells := (cells (heap s))(brk (heap s) \<mapsto> Pointer 0,
                     brk (heap s) + 1 \<mapsto> VecDeleter), brk := brk (heap s) + 2\<rparr>)"
    using f by (simp add: GetEvent_def)
  have e: "minus_int (nevt s1) 1 = Return (nevt s - 1)"
    using f(5) lo hi by (simp add: minus_int_def)
  have "getTupleObj T var branchVecMap fl c s =
           (Throw (not_found T var s1),
            s1\<lparr>heap := GetEvent (tree s1) (resolveName s var, T_vector E) (nevt s - 1) (heap s1)\<rparr>)"
    by (rule getTupleObj_attach_mismatch [where v_tuple = branchVecMap, OF known un br r f(1) t e])
  then have "getTupleObj T var branchVecMap fl c s =
           (Throw (not_found T var s1),
            s1\<lparr>heap := deliver (tree s) (resolveName s var) (nevt s - 1) (brk (heap s))
                 ((heap s)\<lparr>cells := (cells (heap s))(brk (heap s) \<mapsto> Pointer 0,
                     brk (heap s) + 1 \<mapsto> VecDeleter), brk := brk (heap s) + 2\<rparr>)\<rparr>)"
    unfolding g by simp
  then show ?thesis unfolding s1_def .
qed

text \<open>
  Claim C5, as the header has it. Take a request whose resolved name is known to the
  type map and attached in neither column map. When the source has no branch of that
  name, \<^verbatim>\<open>getTupleObj\<close> throws "Variable not found" with the requested type, and with
  the type name the type map holds for the name as the caller passed it, when it holds
  one. When the source declares the branch in the storage category of the accessor
  (a scalar branch for \<^verbatim>\<open>getVar\<close>, a vector branch for \<^verbatim>\<open>getVec\<close> and \<^verbatim>\<open>getMap\<close>) and
  \<^verbatim>\<open>nevt_ - 1\<close> does not overflow, the call attaches new storage at the next free
  address (\<^verbatim>\<open>registerBranch<T>\<close> or \<^verbatim>\<open>registerVecBranch<T>\<close>: handle inserted, column
  marked active, address bound) and has the source deliver entry \<open>nevt - 1\<close> of that
  one branch into it; it returns the reference to that storage when the declared type
  is \<^verbatim>\<open>std::remove_pointer<T>::type\<close> of the requested type and throws "Variable not
  found" otherwise, as \<^verbatim>\<open>getMap\<close> always does on a vector branch.
\<close>

theorem attachment_on_demand:
  "typeMap s (resolveName s var) \<noteq> None \<Longrightarrow> branchMap s (resolveName s var) = None
     \<Longrightarrow> branchVecMap s (resolveName s var) = None \<Longrightarrow>
     (branches (tree s) (resolveName s var) = None \<longrightarrow>
        getTupleObj T var branchMap fl c s = (Throw (not_found T var s), s)
        \<and> getTupleObj T var branchVecMap fl c s = (Throw (not_found T var s), s)
        \<and> (typeMap s var = Some found \<longrightarrow>
              not_found T var s = SATException (msg_not_found_typed var (remove_pointer T) found))
        \<and> (typeMap s var = None \<longrightarrow>
              not_found T var s = SATException (msg_not_found var (remove_pointer T))))
     \<and> (branches (tree s) (resolveName s var) = Some D \<and> \<not> is_vector D
          \<and> remove_pointer T = D \<and> INT_MIN < nevt s \<and> nevt s \<le> INT_MAX \<longrightarrow>
        getTupleObj T var branchMap fl c s =
           (Return (brk (heap s)),
            (registerBranch D (resolveName s var) s)\<lparr>heap :=
               deliver (tree s) (resolveName s var) (nevt s - 1) (brk (heap s))
                 ((heap s)\<lparr>cells := (cells (heap s))(brk (heap s) \<mapsto> Default,
                     brk (heap s) + 1 \<mapsto> SimpleDeleter), brk := brk (heap s) + 2\<rparr>)\<rparr>)
        \<and> getVar T var fl c s = getTupleObj T var branchMap fl c s
        \<and> branchMap (snd (getTupleObj T var branchMap fl c s)) (resolveName s var)
            = Some \<lparr>ptr = brk (heap s), deleter = brk (heap s) + 1, type = D\<rparr>
        \<and> address (tree (snd (getTupleObj T var branchMap fl c s))) (resolveName s var)
            = Some (brk (heap s))
        \<and> status (tree (snd (getTupleObj T var branchMap fl c s))) (resolveName s var))
     \<and> (branches (tree s) (resolveName s var) = Some D \<and> \<not> is_vector D
          \<and> remove_pointer T \<noteq> D \<and> INT_MIN < nevt s \<and> nevt s \<le> INT_MAX \<longrightarrow>
        fst (getTupleObj T var branchMap fl c s)
          = Throw (not_found T var (registerBranch D (resolveName s var) s))
        \<and> snd (getTupleObj T var branchMap fl c s) =
            (registerBranch D (resolveName s var) s)\<lparr>heap :=
               deliver (tree s) (resolveName s var) (nevt s - 1) (brk (heap s))
                 ((heap s)\<lparr>cells := (cells (heap s))(brk (heap s) \<mapsto> Default,
                     brk (heap s) + 1 \<mapsto> SimpleDeleter), brk := brk (heap s) + 2\<rparr>)\<rparr>)
     \<and> (branches (tree s) (resolveName s var) = Some (T_vector E)
          \<and> remove_pointer T = T_vector E \<and> INT_MIN < nevt s \<and> nevt s \<le> INT_MAX \<longrightarrow>
        getTupleObj T var branchVecMap fl c s =
           (Return (brk (heap s)),
            (registerVecBranch E (resolveName s var) s)\<lparr>heap :=
               deliver (tree s) (resolveName s var) (nevt s - 1) (brk (heap s))
                 ((heap s)\<lparr>cells := (cells (heap s))(brk (heap s) \<mapsto> Pointer 0,
                     brk (heap s) + 1 \<mapsto> VecDeleter), brk := brk (heap s) + 2\<rparr>)\<rparr>)
        \<and> branchVecMap (snd (getTupleObj T var branchVecMap fl c s)) (resolveName s var)
            = Some \<lparr>ptr = brk (heap s), deleter = brk (heap s) + 1, type = T_vector E\<rparr>
        \<and> address (tree (snd (getTupleObj T var branchVecMap fl c s))) (resolveName s var)
            = Some (brk (heap s))
        \<and> status (tree (snd (getTupleObj T var branchVecMap fl c s))) (resolveName s var))
     \<and> (branches (tree s) (resolveName s var) = Some (T_vector E)
          \<and> INT_MIN < nevt s \<and> nevt s \<le> INT_MAX
          \<and> cells (deliver (tree s) (resolveName s var) (nevt s - 1) (brk (heap s))
                 ((heap s)\<lparr>cells := (cells (heap s))(brk (heap s) \<mapsto> Pointer 0,
                     brk (heap s) + 1 \<mapsto> VecDeleter), brk := brk (heap s) + 2\<rparr>)) (brk (heap s))
              = Some (Pointer q) \<longrightarrow>
        getVec E var fl c s =
           (Return q,
            (registerVecBranch E (resolveName s var) s)\<lparr>heap :=
               deliver (tree s) (resolveName s var) (nevt s - 1) (brk (heap s))
                 ((heap s)\<lparr>cells := (cells (heap s))(brk (heap s) \<mapsto> Pointer 0,
                     brk (heap s) + 1 \<mapsto> VecDeleter), brk := brk (heap s) + 2\<rparr>)\<rparr>))
     \<and> (branches (tree s) (resolveName s var) = Some (T_vector E)
          \<and> remove_pointer T \<noteq> T_vector E \<and> INT_MIN < nevt s \<and> nevt s \<le> INT_MAX \<longrightarrow>
        fst (getTupleObj T var branchVecMap fl c s)
          = Throw (not_found T var (registerVecBranch E (resolveName s var) s))
        \<and> snd (getTupleObj T var branchVecMap fl c s) =
            (registerVecBranch E (resolveName s var) s)\<lparr>heap :=
               deliver (tree s) (resolveName s var) (nevt s - 1) (brk (heap s))
                 ((heap s)\<lparr>cells := (cells (heap s))(brk (heap s) \<mapsto> Pointer 0,
                     brk (heap s) + 1 \<mapsto> VecDeleter), brk := brk (heap s) + 2\<rparr>)\<rparr>)
     \<and> (branches (tree s) (resolveName s var) = Some (T_vector E)
          \<and> INT_MIN < nevt s \<and> nevt s \<le> INT_MAX \<longrightarrow>
        fst (getMap K V var c s)
          = (if reThrow s
             then Throw (not_found (T_pointer (T_map K V)) var
                           (registerVecBranch E (resolveName s var) s))
             else Return 0))"
proof (intro conjI impI; (elim conjE)?)
  assume known: "typeMap s (resolveName s var) \<noteq> None"
    and un: "branchMap s (resolveName s var) = None"
    and unv: "branchVecMap s (resolveName s var) = None"
  {
    assume nb: "branches (tree s) (resolveName s var) = None"
    show "getTupleObj T var branchMap fl c s = (Throw (not_found T var s), s)"
      by (rule getTupleObj_no_branch [where v_tuple = branchMap, OF known un nb])
    show "getTupleObj T var branchVecMap fl c s = (Throw (not_found T var s), s)"
      by (rule getTupleObj_no_branch [where v_tuple = branchVecMap, OF known unv nb])
  }
  {
    assume "typeMap s var = Some found"
    then show "not_found T var s
                 = SATException (msg_not_found_typed var (remove_pointer T) found)"
      by (simp add: not_found_def)
  }
  {
    assume "typeMap s var = None"
    then show "not_found T var s = SATException (msg_not_found var (remove_pointer T))"
      by (simp add: not_found_def)
  }
  {
    assume br: "branches (tree s) (resolveName s var) = Some D" and sc: "\<not> is_vector D"
      and ty: "remove_pointer T = D" and lo: "INT_MIN < nevt s" and hi: "nevt s \<le> INT_MAX"
    note a = getTupleObj_attach_scalar [OF known un br sc ty lo hi, of fl c]
    note f = registerBranch_facts [OF br refl]
    show "getTupleObj T var branchMap fl c s =
           (Return (brk (heap s)),
            (registerBranch D (resolveName s var) s)\<lparr>heap :=
               deliver (tree s) (resolveName s var) (nevt s - 1) (brk (heap s))
                 ((heap s)\<lparr>cells := (cells (heap s))(brk (heap s) \<mapsto> Default,
                     brk (heap s) + 1 \<mapsto> SimpleDeleter), brk := brk (heap s) + 2\<rparr>)\<rparr>)"
      by (rule a)
    show "getVar T var fl c s = getTupleObj T var branchMap fl c s"
      unfolding getVar_def a by (rule catch_accessor_Return)
    show "branchMap (snd (getTupleObj T var branchMap fl c s)) (resolveName s var)
            = Some \<lparr>ptr = brk (heap s), deleter = brk (heap s) + 1, type = D\<rparr>"
      unfolding a using f(1) by simp
    show "address (tree (snd (getTupleObj T var branchMap fl c s))) (resolveName s var)
            = Some (brk (heap s))"
      unfolding a using f(3) by simp
    show "status (tree (snd (getTupleObj T var branchMap fl c s))) (resolveName s var)"
      unfolding a using f(2) by simp
  }
  {
    assume br: "branches (tree s) (resolveName s var) = Some (T_vector E)"
      and ty: "remove_pointer T = T_vector E"
      and lo: "INT_MIN < nevt s" and hi: "nevt s \<le> INT_MAX"
    note a = getTupleObj_attach_vector [OF known unv br ty lo hi, of fl c]
    note f = registerVecBranch_facts [OF br refl]
    show "getTupleObj T var branchVecMap fl c s =
           (Return (brk (heap s)),
            (registerVecBranch E (resolveName s var) s)\<lparr>heap :=
               deliver (tree s) (resolveName s var) (nevt s - 1) (brk (heap s))
                 ((heap s)\<lparr>cells := (cells (heap s))(brk (heap s) \<mapsto> Pointer 0,
                     brk (heap s) + 1 \<mapsto> VecDeleter), brk := brk (heap s) + 2\<rparr>)\<rparr>)"
      by (rule a)
    show "branchVecMap (snd (getTupleObj T var branchVecMap fl c s)) (resolveName s var)
            = Some \<lparr>ptr = brk (heap s), deleter = brk (heap s) + 1, type = T_vector E\<rparr>"
      unfolding a using f(1) by simp
    show "address (tree (snd (getTupleObj T var branchVecMap fl c s))) (resolveName s var)
            = Some (brk (heap s))"
      unfolding a using f(3) by simp
    show "status (tree (snd (getTupleObj T var branchVecMap fl c s))) (resolveName s var)"
      unfolding a using f(2) by simp
  }
  {
    assume br: "branches (tree s) (resolveName s var) = Some (T_vector E)"
      and lo: "INT_MIN < nevt s" and hi: "nevt s \<le> INT_MAX"
      and cell: "cells (deliver (tree s) (resolveName s var) (nevt s - 1) (brk (heap s))
                 ((heap s)\<lparr>cells := (cells (heap s))(brk (heap s) \<mapsto> Pointer 0,
                     brk (heap s) + 1 \<mapsto> VecDeleter), brk := brk (heap s) + 2\<rparr>)) (brk (heap s))
              = Some (Pointer q)"
    have ty: "remove_pointer (T_pointer (T_vector E)) = T_vector E"
      by simp
    note a = getTupleObj_attach_vector [OF known unv br ty lo hi, of fl c]
    show "getVec E var fl c s =
           (Return q,
            (registerVecBranch E (resolveName s var) s)\<lparr>heap :=
               deliver (tree s) (resolveName s var) (nevt s - 1) (brk (heap s))
                 ((heap s)\<lparr>cells := (cells (heap s))(brk (heap s) \<mapsto> Pointer 0,
                     brk (heap s) + 1 \<mapsto> VecDeleter), brk := brk (heap s) + 2\<rparr>)\<rparr>)"
      unfolding getVec_def a using cell by (simp add: deref_cell_def catch_accessor_Return)
  }
  {
    assume br: "branches (tree s) (resolveName s var) = Some D" and sc: "\<not> is_vector D"
      and ty: "remove_pointer T \<noteq> D" and lo: "INT_MIN < nevt s" and hi: "nevt s \<le> INT_MAX"
    note a = getTupleObj_mismatch_scalar [OF known un br sc ty lo hi, of fl c]
    show "fst (getTupleObj T var branchMap fl c s)
          = Throw (not_found T var (registerBranch D (resolveName s var) s))"
      unfolding a by simp
    show "snd (getTupleObj T var branchMap fl c s) =
            (registerBranch D (resolveName s var) s)\<lparr>heap :=
               deliver (tree s) (resolveName s var) (nevt s - 1) (brk (heap s))
                 ((heap s)\<lparr>cells := (cells (heap s))(brk (heap s) \<mapsto> Default,
                     brk (heap s) + 1 \<mapsto> SimpleDeleter), brk := brk (heap s) + 2\<rparr>)\<rparr>"
      unfolding a by simp
  }
  {
    assume br: "branches (tree s) (resolveName s var) = Some (T_vector E)"
      and ty: "remove_pointer T \<noteq> T_vector E"
      and lo: "INT_MIN < nevt s" and hi: "nevt s \<le> INT_MAX"
    note a = getTupleObj_mismatch_vector [OF known unv br ty lo hi, of fl c]
    show "fst (getTupleObj T var branchVecMap fl c s)
          = Throw (not_found T var (registerVecBranch E (resolveName s var) s))"
      unfolding a by simp
    show "snd (getTupleObj T var branchVecMap fl c s) =
            (registerVecBranch E (resolveName s var) s)\<lparr>heap :=
               deliver (tree s) (resolveName s var) (nevt s - 1) (brk (heap s))
                 ((heap s)\<lparr>cells := (cells (heap s))(brk (heap s) \<mapsto> Pointer 0,
                     brk (heap s) + 1 \<mapsto> VecDeleter), brk := brk (heap s) + 2\<rparr>)\<rparr>"
      unfolding a by simp
  }
  {
    assume br: "branches (tree s) (resolveName s var) = Some (T_vector E)"
      and lo: "INT_MIN < nevt s" and hi: "nevt s \<le> INT_MAX"
    have ty: "remove_pointer (T_pointer (T_map K V)) \<noteq> T_vector E"
      by simp
    note a = getTupleObj_mismatch_vector [OF known unv br ty lo hi, of False c]
    have r: "reThrow (registerVecBranch E (resolveName s var) s) = reThrow s"
      by (simp add: registerVecBranch_def split: prod.splits)
    show "fst (getMap K V var c s)
          = (if reThrow s
             then Throw (not_found (T_pointer (T_map K V)) var
                           (registerVecBranch E (resolveName s var) s))
             else Return 0)"
      unfolding getMap_def a deref_cell_Throw catch_accessor_Throw using r by simp
  }
qed

text \<open>
  The theorem at the sample session standing on its third row: \<^verbatim>\<open>count\<close> is attached
  at address 100 and holds the value of entry 2, \<^verbatim>\<open>vals\<close> is attached at address 100
  and points to the collection of entry 2, which \<^verbatim>\<open>getVec<double>\<close> returns, and
  \<^verbatim>\<open>getMap\<close> on \<^verbatim>\<open>vals\<close> returns the null reference; the name \<^verbatim>\<open>ghost\<close>, known to the
  type map as \<^verbatim>\<open>double\<close> and absent from the source, is reported with both types.
\<close>

theorem attachment_on_demand_witness:
  "getVar T_int ''count'' False (CHR ''x'') third_row
     = getTupleObj T_int ''count'' branchMap False (CHR ''x'') third_row
   \<and> fst (getTupleObj T_int ''count'' branchMap False (CHR ''x'') third_row) = Return 100
   \<and> branchMap (snd (getTupleObj T_int ''count'' branchMap False (CHR ''x'') third_row)) ''count''
       = Some \<lparr>ptr = 100, deleter = 101, type = T_int\<rparr>
   \<and> cells (heap (snd (getTupleObj T_int ''count'' branchMap False (CHR ''x'') third_row))) 100
       = Some (Value 2)
   \<and> fst (getTupleObj (T_pointer (T_vector T_double)) ''vals'' branchVecMap False (CHR ''x'')
            third_row) = Return 100
   \<and> cells (heap (snd (getTupleObj (T_pointer (T_vector T_double)) ''vals'' branchVecMap False
                         (CHR ''x'') third_row))) 100 = Some (Pointer 102)
   \<and> cells (heap (snd (getTupleObj (T_pointer (T_vector T_double)) ''vals'' branchVecMap False
                         (CHR ''x'') third_row))) 102 = Some (Value 2)
   \<and> fst (getVec T_double ''vals'' False (CHR ''x'') third_row) = Return 102
   \<and> fst (getMap T_int T_int ''vals'' (CHR ''x'') third_row) = Return 0
   \<and> getTupleObj T_float ''ghost'' branchMap False (CHR ''x'') ghost_reader
       = (Throw (SATException (msg_not_found_typed ''ghost'' T_float ''double'')), ghost_reader)"
proof -
  have names: "resolveName third_row ''count'' = ''count''"
    "resolveName third_row ''vals'' = ''vals''"
    "resolveName ghost_reader ''ghost'' = ''ghost''"
    by (simp_all add: resolveName_def checkBranch_def third_row_def ghost_reader_def sample_defs)
  have count: "typeMap third_row ''count'' \<noteq> None" "branchMap third_row ''count'' = None"
    "branchVecMap third_row ''count'' = None" "branches (tree third_row) ''count'' = Some T_int"
    by (simp_all add: third_row_def sample_defs)
  have vals: "typeMap third_row ''vals'' \<noteq> None" "branchMap third_row ''vals'' = None"
    "branchVecMap third_row ''vals'' = None"
    "branches (tree third_row) ''vals'' = Some (T_vector T_double)"
    by (simp_all add: third_row_def sample_defs)
  have ghost: "typeMap ghost_reader ''ghost'' = Some ''double''"
    "branchMap ghost_reader ''ghost'' = None"
    "branchVecMap ghost_reader ''ghost'' = None" "branches (tree ghost_reader) ''ghost'' = None"
    by (simp_all add: ghost_reader_def sample_defs)
  have store: "heap third_row = \<lparr>cells = Map.empty, brk = 100\<rparr>" "nevt third_row = 3"
    "deliver (tree third_row) = deliver sample_tree" "\<not> reThrow third_row"
    "INT_MIN < 3" "3 \<le> INT_MAX"
    by (simp_all add: third_row_def sample_defs INT_MIN_def INT_MAX_def)
  have d: "deliver sample_tree ''vals'' 2 100
             \<lparr>cells = [100 \<mapsto> Pointer 0, 101 \<mapsto> VecDeleter], brk = 102\<rparr>
           = \<lparr>cells = [100 \<mapsto> Pointer 102, 101 \<mapsto> VecDeleter, 102 \<mapsto> Value 2], brk = 103\<rparr>"
    by (simp add: sample_tree_def new_object_def fun_eq_iff)
  have a: "getTupleObj T_int ''count'' branchMap False (CHR ''x'') third_row =
           (Return 100,
            (registerBranch T_int ''count'' third_row)\<lparr>heap :=
               deliver sample_tree ''count'' 2 100
                 \<lparr>cells = [100 \<mapsto> Default, 101 \<mapsto> SimpleDeleter], brk = 102\<rparr>\<rparr>)"
    and a': "getVar T_int ''count'' False (CHR ''x'') third_row
               = getTupleObj T_int ''count'' branchMap False (CHR ''x'') third_row"
    using names count store
      attachment_on_demand [where s = third_row and var = "''count''" and T = T_int
        and D = T_int and fl = False and c = "CHR ''x''"]
    by simp_all
  have b: "getTupleObj (T_pointer (T_vector T_double)) ''vals'' branchVecMap False (CHR ''x'')
             third_row =
           (Return 100,
            (registerVecBranch T_double ''vals'' third_row)\<lparr>heap :=
               deliver sample_tree ''vals'' 2 100
                 \<lparr>cells = [100 \<mapsto> Pointer 0, 101 \<mapsto> VecDeleter], brk = 102\<rparr>\<rparr>)"
    using names vals store
      attachment_on_demand [where s = third_row and var = "''vals''"
        and T = "T_pointer (T_vector T_double)" and E = T_double and fl = False
        and c = "CHR ''x''"]
    by simp
  have v: "fst (getVec T_double ''vals'' False (CHR ''x'') third_row) = Return 102"
    using names vals store d
      attachment_on_demand [where s = third_row and var = "''vals''"
        and E = T_double and fl = False and c = "CHR ''x''" and q = 102]
    by simp
  have m: "fst (getMap T_int T_int ''vals'' (CHR ''x'') third_row) = Return 0"
    using names vals store
      attachment_on_demand [where s = third_row and var = "''vals''"
        and E = T_double and K = T_int and V = T_int and c = "CHR ''x''"]
    by simp
  have g: "getTupleObj T_float ''ghost'' branchMap False (CHR ''x'') ghost_reader
       = (Throw (SATException (msg_not_found_typed ''ghost'' T_float ''double'')), ghost_reader)"
    using names ghost
      attachment_on_demand [where s = ghost_reader and var = "''ghost''" and T = T_float
        and fl = False and c = "CHR ''x''" and found = "''double''"]
    by simp
  have "branchMap (registerBranch T_int ''count'' third_row) ''count''
          = Some \<lparr>ptr = 100, deleter = 101, type = T_int\<rparr>"
    by (simp add: third_row_def sample_defs register_defs)
  then show ?thesis
    unfolding a' v m unfolding a b g by (simp add: sample_tree_def new_object_def)
qed

text \<open>
  When the source declares the branch in the other storage category (a vector branch
  asked for through the scalar map), the attachment goes to the other map,
  \<^verbatim>\<open>v_tuple.find\<close> returns \<^verbatim>\<open>end()\<close> and the header dereferences it.
\<close>

lemma attachment_in_other_map:
  "typeMap s (resolveName s var) \<noteq> None \<Longrightarrow> branchMap s (resolveName s var) = None
     \<Longrightarrow> branches (tree s) (resolveName s var) = Some (T_vector E)
     \<Longrightarrow> fst (getTupleObj T var branchMap fl c s) = Undefined"
proof -
  assume known: "typeMap s (resolveName s var) \<noteq> None"
    and un: "branchMap s (resolveName s var) = None"
    and br: "branches (tree s) (resolveName s var) = Some (T_vector E)"
  have "branchMap (registerBranch_TBranch (resolveName s var, T_vector E) s) (resolveName s var)
          = None"
    using un
    by (simp add: registerBranch_TBranch_vector registerVecBranch_def new_object_def
        createVecHandle_def)
  then show ?thesis
    by (rule getTupleObj_attach_elsewhere [where v_tuple = branchMap, OF known un br])
qed

text \<open>
  Claim C5 as stated fails in three ways. A known and unattached name whose declared
  type is the requested one need not be returned: \<^verbatim>\<open>vals\<close> is a \<^verbatim>\<open>vector<double>\<close>
  branch, and \<^verbatim>\<open>getVar<std::vector<double>>("vals")\<close> attaches it in the vector-column
  map and then dereferences the end of the scalar-column map. The failure message
  looks the type name up under the name as passed: under the prefix \<^verbatim>\<open>p_\<close>, with
  \<^verbatim>\<open>p_ghost\<close> known as \<^verbatim>\<open>double\<close> and absent from the source, \<^verbatim>\<open>ghost\<close> requested as
  \<^verbatim>\<open>float\<close> is reported without the stored type. And at the least value of \<^verbatim>\<open>nevt_\<close>
  the entry number \<^verbatim>\<open>nevt_ - 1\<close> overflows.
\<close>

theorem attachment_counterexamples:
  "typeMap third_row ''vals'' = Some ''std::vector<double, std::allocator<double> >''
   \<and> branchMap third_row ''vals'' = None \<and> branchVecMap third_row ''vals'' = None
   \<and> branches (tree third_row) ''vals'' = Some (T_vector T_double)
   \<and> fst (getVar (T_vector T_double) ''vals'' False (CHR ''x'') third_row) = Undefined
   \<and> resolveName prefix_ghost ''ghost'' = ''p_ghost''
   \<and> typeMap prefix_ghost ''p_ghost'' = Some ''double''
   \<and> branchMap prefix_ghost ''p_ghost'' = None \<and> branchVecMap prefix_ghost ''p_ghost'' = None
   \<and> branches (tree prefix_ghost) ''p_ghost'' = None
   \<and> getTupleObj T_float ''ghost'' branchMap False (CHR ''x'') prefix_ghost
       = (Throw (SATException (msg_not_found ''ghost'' T_float)), prefix_ghost)
   \<and> fst (getTupleObj T_int ''count'' branchMap False (CHR ''x'') (third_row\<lparr>nevt := INT_MIN\<rparr>))
       = Undefined"
proof -
  have name: "resolveName third_row ''vals'' = ''vals''"
    by (simp add: resolveName_def checkBranch_def third_row_def sample_defs)
  have vals: "typeMap third_row ''vals'' = Some ''std::vector<double, std::allocator<double> >''"
    "branchMap third_row ''vals'' = None" "branchVecMap third_row ''vals'' = None"
    "branches (tree third_row) ''vals'' = Some (T_vector T_double)"
    by (simp_all add: third_row_def sample_defs)
  have "fst (getTupleObj (T_vector T_double) ''vals'' branchMap False (CHR ''x'') third_row)
          = Undefined"
    using name vals
      attachment_in_other_map [where s = third_row and var = "''vals''" and E = T_double
        and T = "T_vector T_double" and fl = False and c = "CHR ''x''"]
    by simp
  then have u: "fst (getVar (T_vector T_double) ''vals'' False (CHR ''x'') third_row) = Undefined"
    by (cases "getTupleObj (T_vector T_double) ''vals'' branchMap False (CHR ''x'') third_row")
      (simp add: getVar_def catch_accessor_def)
  have r: "resolveName prefix_ghost ''ghost'' = ''p_ghost''"
    by (simp add: resolveName_def checkBranch_def prefix_ghost_def sample_defs)
  have p: "typeMap prefix_ghost ''p_ghost'' = Some ''double''"
    "branchMap prefix_ghost ''p_ghost'' = None" "branchVecMap prefix_ghost ''p_ghost'' = None"
    "branches (tree prefix_ghost) ''p_ghost'' = None" "typeMap prefix_ghost ''ghost'' = None"
    by (simp_all add: prefix_ghost_def sample_defs)
  have "getTupleObj T_float ''ghost'' branchMap False (CHR ''x'') prefix_ghost
       = (Throw (not_found T_float ''ghost'' prefix_ghost), prefix_ghost)"
    using r p
      getTupleObj_no_branch [where v_tuple = branchMap and s = prefix_ghost and var = "''ghost''"
        and T = T_float and fl = False and c = "CHR ''x''"]
    by simp
  then have g: "getTupleObj T_float ''ghost'' branchMap False (CHR ''x'') prefix_ghost
       = (Throw (SATException (msg_not_found ''ghost'' T_float)), prefix_ghost)"
    using p by (simp add: not_found_def)
  have o: "fst (getTupleObj T_int ''count'' branchMap False (CHR ''x'')
                  (third_row\<lparr>nevt := INT_MIN\<rparr>)) = Undefined"
    by (simp add: lookup_defs Let_def registerBranch_TBranch_def minus_int_def INT_MIN_def
        INT_MAX_def third_row_def sample_defs register_defs)
  from vals u r p g o show ?thesis by simp
qed

end
